theory Spec2Isabelle
  imports Main "HOL-Library.Word"
begin

section \<open>Data model of \<^verbatim>\<open>pkg/reconciling/defaults.go\<close>\<close>

text \<open>
  The Go structs of \<^verbatim>\<open>k8s.io/api\<close> that the defaulting functions read or write are
  records. A Go pointer to a struct or to a scalar is an \<open>option\<close> (\<open>None\<close> is the
  nil pointer), a slice is a list, \<^verbatim>\<open>int32\<close> is \<open>32 word\<close>. Every struct keeps,
  beside the fields the code touches, some fields it never touches, so that "left
  unchanged" says something. Field names are the Go names; a prefix tells apart the
  names that several structs share (\<^verbatim>\<open>Name\<close>, \<^verbatim>\<open>Type\<close>, \<^verbatim>\<open>Spec\<close>, ...).

  The one pointer that the code writes through and that several owners can hold is
  \<^verbatim>\<open>Container.SecurityContext\<close>: line 49 assigns \<^verbatim>\<open>c.SecurityContext.ProcMount\<close>, and
  a caller may have given one \<^verbatim>\<open>*SecurityContext\<close> to several containers of a pod
  spec. So a container holds the address of its security context, and the pod spec
  carries the store of the \<^verbatim>\<open>SecurityContext\<close> objects that its containers point to
  (the field \<open>sc_heap\<close>, which is no Go field). Two containers share a security
  context when they hold the same address. The other pointers are only read, or
  written with a constant where the field is empty, so sharing them changes no value;
  they are \<open>option\<close>s of values.

  The names \<^verbatim>\<open>ProcMountType\<close>, \<^verbatim>\<open>PullPolicy\<close> and the like are Go string types;
  \<^verbatim>\<open>error\<close> is the message of a Go error.
\<close>

type_synonym ProcMountType = string

type_synonym error = string

type_synonym addr = nat

record ObjectFieldSelector =
  APIVersion :: string
  FieldPath :: string

record EnvVarSource =
  FieldRef :: "ObjectFieldSelector option"
  SecretKeyRef :: "string option"

record EnvVar =
  env_Name :: string
  env_Value :: string
  ValueFrom :: "EnvVarSource option"

record SecurityContext =
  Privileged :: "bool option"
  RunAsUser :: "64 word option"
  ProcMount :: "ProcMountType option"

record Container =
  c_Name :: string
  Image :: string
  ImagePullPolicy :: string
  TerminationMessagePath :: string
  TerminationMessagePolicy :: string
  Env :: "EnvVar list"
  c_SecurityContext :: "addr option"

record SecretVolumeSource =
  SecretName :: string
  secret_DefaultMode :: "32 word option"

record ConfigMapVolumeSource =
  cm_Name :: string
  cm_DefaultMode :: "32 word option"

record VolumeSource =
  HostPath :: "string option"
  Secret :: "SecretVolumeSource option"
  ConfigMap :: "ConfigMapVolumeSource option"

record Volume =
  v_Name :: string
  VolumeSource :: VolumeSource

record SeccompProfile =
  seccomp_Type :: string
  LocalhostProfile :: "string option"

record PodSecurityContext =
  pod_RunAsUser :: "64 word option"
  RunAsNonRoot :: "bool option"
  SeccompProfile :: "SeccompProfile option"

record PodSpec =
  Volumes :: "Volume list"
  InitContainers :: "Container list"
  Containers :: "Container list"
  ServiceAccountName :: string
  pod_SecurityContext :: "PodSecurityContext option"
  sc_heap :: "addr \<Rightarrow> SecurityContext"

subsection \<open>Constants of \<^verbatim>\<open>k8s.io/api/core/v1\<close>\<close>

definition PullIfNotPresent :: string where
  "PullIfNotPresent = ''IfNotPresent''"

definition TerminationMessagePathDefault :: string where
  "TerminationMessagePathDefault = ''/dev/termination-log''"

definition TerminationMessageReadFile :: string where
  "TerminationMessageReadFile = ''File''"

definition SecretVolumeSourceDefaultMode :: "32 word" where
  \<comment> \<open>octal 0644\<close>
  "SecretVolumeSourceDefaultMode = 420"

definition ConfigMapVolumeSourceDefaultMode :: "32 word" where
  \<comment> \<open>octal 0644\<close>
  "ConfigMapVolumeSourceDefaultMode = 420"

definition SeccompProfileTypeRuntimeDefault :: string where
  "SeccompProfileTypeRuntimeDefault = ''RuntimeDefault''"

section \<open>DefaultContainer\<close>

text \<open>
  The body of the loop over \<^verbatim>\<open>c.Env\<close> (lines 40 to 44), on the entry at \<^verbatim>\<open>idx\<close>:
  the API version of a field reference is filled in when it is empty.
\<close>

definition defaultEnvVar :: "EnvVar \<Rightarrow> EnvVar" where
  "defaultEnvVar e =
     (case ValueFrom e of
        None \<Rightarrow> e
      | Some vf \<Rightarrow>
          (case FieldRef vf of
             None \<Rightarrow> e
           | Some fr \<Rightarrow>
               if APIVersion fr = ''''
               then e\<lparr>ValueFrom := Some (vf\<lparr>FieldRef := Some (fr\<lparr>APIVersion := ''v1''\<rparr>)\<rparr>)\<rparr>
               else e))"

text \<open>
  \<^verbatim>\<open>DefaultContainer(c *corev1.Container, procMountType *corev1.ProcMountType)\<close>
  mutates the container in place, and the security context object through the
  container's pointer. The model takes the store of security context objects and the
  container, and returns both as they are after the call. The loop
  \<^verbatim>\<open>for idx := range c.Env\<close> runs over the indices and updates the entry at each.
\<close>

definition DefaultContainer ::
  "(addr \<Rightarrow> SecurityContext) \<Rightarrow> Container \<Rightarrow> ProcMountType option
     \<Rightarrow> (addr \<Rightarrow> SecurityContext) \<times> Container" where
  "DefaultContainer heap c0 procMountType =
     (let c1 = (if ImagePullPolicy c0 = '''' then c0\<lparr>ImagePullPolicy := PullIfNotPresent\<rparr> else c0);
          c2 = (if TerminationMessagePath c1 = ''''
                then c1\<lparr>TerminationMessagePath := TerminationMessagePathDefault\<rparr> else c1);
          c3 = (if TerminationMessagePolicy c2 = ''''
                then c2\<lparr>TerminationMessagePolicy := TerminationMessageReadFile\<rparr> else c2);
          c4 = c3\<lparr>Env := fold (\<lambda>idx env. env[idx := defaultEnvVar (env ! idx)])
                               [0..<length (Env c3)] (Env c3)\<rparr>
      in (case c_SecurityContext c4 of
            None \<Rightarrow> (heap, c4)
          | Some a \<Rightarrow> (heap(a := (heap a)\<lparr>ProcMount := procMountType\<rparr>), c4)))"

section \<open>DefaultPodSpec\<close>

text \<open>
  The two Go maps \<^verbatim>\<open>map[string]*corev1.ProcMountType\<close> (lines 59 to 70). A key is
  written only for an old container whose security context is not nil, and a later
  container of the same name overwrites the entry of an earlier one. Reading a key
  that is absent gives the zero value of the pointer type, nil, as does a key that is
  present with a nil pointer. The old containers' security contexts are read from the
  store of the old pod spec.
\<close>

type_synonym procMountMap = "string \<rightharpoonup> ProcMountType option"

definition collectProcMount :: "(addr \<Rightarrow> SecurityContext) \<Rightarrow> Container list \<Rightarrow> procMountMap" where
  "collectProcMount heap cs =
     fold (\<lambda>container m.
             (case c_SecurityContext container of
                None \<Rightarrow> m
              | Some a \<Rightarrow> m(c_Name container \<mapsto> ProcMount (heap a))))
          cs Map.empty"

definition lookupProcMount :: "procMountMap \<Rightarrow> string \<Rightarrow> ProcMountType option" where
  "lookupProcMount m name = (case m name of None \<Rightarrow> None | Some p \<Rightarrow> p)"

text \<open>
  The loops over the new containers (lines 72 to 78): \<^verbatim>\<open>container\<close> is a copy of the
  element at \<^verbatim>\<open>idx\<close>, whose name indexes the map, and \<^verbatim>\<open>DefaultContainer\<close> mutates
  the element of the slice itself and the security context it points to. The state of
  the loop is the store together with the slice.
\<close>

definition defaultContainers ::
  "procMountMap \<Rightarrow> (addr \<Rightarrow> SecurityContext) \<times> Container list
     \<Rightarrow> (addr \<Rightarrow> SecurityContext) \<times> Container list" where
  "defaultContainers m s0 =
     fold (\<lambda>idx (heap, cs).
             (case DefaultContainer heap (cs ! idx) (lookupProcMount m (c_Name (cs ! idx))) of
                (heap', c') \<Rightarrow> (heap', cs[idx := c'])))
          [0..<length (snd s0)] s0"

text \<open>
  The body of the loop over the volumes (lines 81 to 86): \<^verbatim>\<open>vol\<close> is a copy of the
  element at \<^verbatim>\<open>idx\<close>; its two pointers are those of the element.
\<close>

definition defaultVolume :: "Volume \<Rightarrow> Volume" where
  "defaultVolume vol =
     (let v1 = (case Secret (VolumeSource vol) of
                  None \<Rightarrow> vol
                | Some s \<Rightarrow>
                    if secret_DefaultMode s = None
                    then vol\<lparr>VolumeSource := (VolumeSource vol)
                           \<lparr>Secret := Some (s\<lparr>secret_DefaultMode := Some SecretVolumeSourceDefaultMode\<rparr>)\<rparr>\<rparr>
                    else vol)
      in (case ConfigMap (VolumeSource vol) of
            None \<Rightarrow> v1
          | Some cm \<Rightarrow>
              if cm_DefaultMode cm = None
              then v1\<lparr>VolumeSource := (VolumeSource v1)
                     \<lparr>ConfigMap := Some (cm\<lparr>cm_DefaultMode := Some ConfigMapVolumeSourceDefaultMode\<rparr>)\<rparr>\<rparr>
              else v1))"

definition defaultVolumes :: "Volume list \<Rightarrow> Volume list" where
  "defaultVolumes vs0 =
     fold (\<lambda>idx vs. vs[idx := defaultVolume (vs ! idx)]) [0..<length vs0] vs0"

text \<open>
  \<^verbatim>\<open>DefaultPodSpec(oldPodSpec, newPodSpec corev1.PodSpec) (corev1.PodSpec, error)\<close>.
  The result is the pair of the returned pod spec and the returned error, \<open>None\<close>
  for a nil error. \<^verbatim>\<open>&corev1.PodSecurityContext{}\<close> is the struct with every field
  at its zero value. The old pod spec is read in full (lines 61 to 70) before the
  first write (line 73), so it enters with the values it has when the call starts;
  the writes go to the store of the new pod spec, first for the init containers and
  then for the main containers.
\<close>

definition emptyPodSecurityContext :: PodSecurityContext where
  "emptyPodSecurityContext =
     \<lparr>pod_RunAsUser = None, RunAsNonRoot = None, SeccompProfile = None\<rparr>"

definition DefaultPodSpec :: "PodSpec \<Rightarrow> PodSpec \<Rightarrow> PodSpec \<times> error option" where
  "DefaultPodSpec oldPodSpec newPodSpec =
     (let initContainerProcMountType =
            collectProcMount (sc_heap oldPodSpec) (InitContainers oldPodSpec);
          containerProcMountType =
            collectProcMount (sc_heap oldPodSpec) (Containers oldPodSpec);
          s1 = defaultContainers initContainerProcMountType
                 (sc_heap newPodSpec, InitContainers newPodSpec);
          p1 = newPodSpec\<lparr>InitContainers := snd s1, sc_heap := fst s1\<rparr>;
          s2 = defaultContainers containerProcMountType (sc_heap p1, Containers p1);
          p2 = p1\<lparr>Containers := snd s2, sc_heap := fst s2\<rparr>;
          p3 = p2\<lparr>Volumes := defaultVolumes (Volumes p2)\<rparr>;
          sc0 = (case pod_SecurityContext p3 of
                   None \<Rightarrow> emptyPodSecurityContext
                 | Some sc \<Rightarrow> sc);
          sc1 = (case SeccompProfile sc0 of
                   None \<Rightarrow> sc0\<lparr>SeccompProfile :=
                             Some \<lparr>seccomp_Type = SeccompProfileTypeRuntimeDefault,
                                   LocalhostProfile = None\<rparr>\<rparr>
                 | Some _ \<Rightarrow> sc0)
      in (p3\<lparr>pod_SecurityContext := Some sc1\<rparr>, None))"

text \<open>
  The writes that one loop over a container list makes to the store, taken alone: each
  container with a security context overwrites the isolation mode of the object it
  points to with the entry of its name. The facts below show that this is the store
  part of \<open>defaultContainers\<close>.
\<close>

abbreviation procMountWrites ::
  "procMountMap \<Rightarrow> Container list \<Rightarrow> (addr \<Rightarrow> SecurityContext) \<Rightarrow> addr \<Rightarrow> SecurityContext" where
  "procMountWrites m cs heap \<equiv>
     fold (\<lambda>c h. (case c_SecurityContext c of
                     None \<Rightarrow> h
                   | Some a \<Rightarrow> h(a := (h a)\<lparr>ProcMount := lookupProcMount m (c_Name c)\<rparr>)))
          cs heap"

section \<open>The workload kinds\<close>

datatype intstr_Type = intstr_Int | intstr_String

record IntOrString =
  intstr_Type :: intstr_Type
  IntVal :: "32 word"
  StrVal :: string

record RollingUpdateDeployment =
  MaxUnavailable :: "IntOrString option"
  MaxSurge :: "IntOrString option"

record DeploymentStrategy =
  strategy_Type :: string
  RollingUpdate :: "RollingUpdateDeployment option"

record PodTemplateSpec =
  tmpl_Labels :: "(string \<times> string) list"
  tmpl_Spec :: PodSpec

record DeploymentSpec =
  dep_Replicas :: "32 word option"
  Strategy :: DeploymentStrategy
  dep_Template :: PodTemplateSpec

record Deployment =
  dep_Name :: string
  dep_Spec :: DeploymentSpec

record StatefulSetSpec =
  sts_Replicas :: "32 word option"
  ServiceName :: string
  sts_Template :: PodTemplateSpec

record StatefulSet =
  sts_Name :: string
  sts_Spec :: StatefulSetSpec

record DaemonSetSpec =
  MinReadySeconds :: "32 word"
  ds_Template :: PodTemplateSpec

record DaemonSet =
  ds_Name :: string
  ds_Spec :: DaemonSetSpec

record JobSpec =
  BackoffLimit :: "32 word option"
  job_Template :: PodTemplateSpec

record JobTemplateSpec =
  jt_Labels :: "(string \<times> string) list"
  jt_Spec :: JobSpec

record CronJobSpec =
  Schedule :: string
  JobTemplate :: JobTemplateSpec

record CronJob =
  cj_Name :: string
  cj_Spec :: CronJobSpec

definition RollingUpdateDeploymentStrategyType :: string where
  "RollingUpdateDeploymentStrategyType = ''RollingUpdate''"

section \<open>Reconcilers and the four wrappers\<close>

text \<open>
  A reconciler is a Go function \<^verbatim>\<open>func(*T) (*T, error)\<close>. It receives a pointer, may
  write through it, and returns a pointer and an error. The model of the argument is
  the object the pointer refers to (\<open>None\<close> for the nil pointer). The result is a
  pair: the object the argument pointer refers to once the call is over, and what the
  call did. It either panics (the Go runtime's nil dereference; no wrapper recovers),
  or returns a pointer and an error. The returned pointer is nil, the argument pointer
  itself, or a pointer to another object, whose value it carries.
\<close>

datatype 'o ptr = NilPtr | InputPtr | OtherPtr 'o

datatype 'o outcome = Panics | Returns "'o ptr" "error option"

type_synonym 'o reconciler = "'o option \<Rightarrow> 'o option \<times> 'o outcome"

text \<open>Reading a pointer, given the object behind the argument pointer.\<close>

fun deref :: "'o ptr \<Rightarrow> 'o option \<Rightarrow> 'o option" where
  "deref NilPtr d = None"
| "deref InputPtr d = d"
| "deref (OtherPtr x) d = Some x"

text \<open>
  Writing \<open>v\<close> through a pointer that is not nil: the object behind the argument
  pointer changes when the pointer is the argument pointer, and the other object
  changes otherwise.
\<close>

fun storeInput :: "'o ptr \<Rightarrow> 'o \<Rightarrow> 'o option \<Rightarrow> 'o option" where
  "storeInput InputPtr v d = Some v"
| "storeInput p v d = d"

fun storePtr :: "'o ptr \<Rightarrow> 'o \<Rightarrow> 'o ptr" where
  "storePtr (OtherPtr x) v = OtherPtr v"
| "storePtr p v = p"

text \<open>
  \<^verbatim>\<open>DefaultDeployment\<close> (lines 106 to 139). \<^verbatim>\<open>d.DeepCopy()\<close> is the value of the
  argument before the inner reconciler runs (nil for a nil pointer). Reading
  \<^verbatim>\<open>d.Spec\<close> through a nil result and \<^verbatim>\<open>old.Spec\<close> through a nil copy panic. The
  assignment of line 132 writes the pod spec before the error is looked at.
\<close>

definition DefaultDeployment :: "Deployment reconciler \<Rightarrow> Deployment reconciler" where
  "DefaultDeployment reconciler d =
     (let old = d in
      case reconciler d of
        (d_in, Panics) \<Rightarrow> (d_in, Panics)
      | (d_in, Returns p (Some err)) \<Rightarrow> (d_in, Returns NilPtr (Some err))
      | (d_in, Returns p None) \<Rightarrow>
          (case deref p d_in of
             None \<Rightarrow> (d_in, Panics)
           | Some d1 \<Rightarrow>
               let d2 =
                 (if strategy_Type (Strategy (dep_Spec d1)) = ''''
                  then
                    let s1 = (Strategy (dep_Spec d1))\<lparr>strategy_Type := RollingUpdateDeploymentStrategyType\<rparr>;
                        s2 = (if RollingUpdate s1 = None
                              then s1\<lparr>RollingUpdate := Some
                                     \<lparr>MaxUnavailable =
                                        Some \<lparr>intstr_Type = intstr_Int, IntVal = 0, StrVal = ''''\<rparr>,
                                      MaxSurge =
                                        Some \<lparr>intstr_Type = intstr_Int, IntVal = 1, StrVal = ''''\<rparr>\<rparr>\<rparr>
                              else s1)
                    in d1\<lparr>dep_Spec := (dep_Spec d1)\<lparr>Strategy := s2\<rparr>\<rparr>
                  else d1)
               in (case old of
                     None \<Rightarrow> (storeInput p d2 d_in, Panics)
                   | Some old' \<Rightarrow>
                       (case DefaultPodSpec (tmpl_Spec (dep_Template (dep_Spec old')))
                                            (tmpl_Spec (dep_Template (dep_Spec d2))) of
                          (spec, err) \<Rightarrow>
                            let d3 = d2\<lparr>dep_Spec := (dep_Spec d2)
                                       \<lparr>dep_Template := (dep_Template (dep_Spec d2))\<lparr>tmpl_Spec := spec\<rparr>\<rparr>\<rparr>
                            in (case err of
                                  Some e \<Rightarrow> (storeInput p d3 d_in, Returns NilPtr (Some e))
                                | None \<Rightarrow> (storeInput p d3 d_in, Returns (storePtr p d3) None))))))"

text \<open>\<^verbatim>\<open>DefaultStatefulSet\<close> (lines 143 to 159).\<close>

definition DefaultStatefulSet :: "StatefulSet reconciler \<Rightarrow> StatefulSet reconciler" where
  "DefaultStatefulSet reconciler ss =
     (let old = ss in
      case reconciler ss of
        (ss_in, Panics) \<Rightarrow> (ss_in, Panics)
      | (ss_in, Returns p (Some err)) \<Rightarrow> (ss_in, Returns NilPtr (Some err))
      | (ss_in, Returns p None) \<Rightarrow>
          (case old of
             None \<Rightarrow> (ss_in, Panics)
           | Some old' \<Rightarrow>
               (case deref p ss_in of
                  None \<Rightarrow> (ss_in, Panics)
                | Some ss1 \<Rightarrow>
                    (case DefaultPodSpec (tmpl_Spec (sts_Template (sts_Spec old')))
                                         (tmpl_Spec (sts_Template (sts_Spec ss1))) of
                       (spec, err) \<Rightarrow>
                         let ss2 = ss1\<lparr>sts_Spec := (sts_Spec ss1)
                                     \<lparr>sts_Template := (sts_Template (sts_Spec ss1))\<lparr>tmpl_Spec := spec\<rparr>\<rparr>\<rparr>
                         in (case err of
                               Some e \<Rightarrow> (storeInput p ss2 ss_in, Returns NilPtr (Some e))
                             | None \<Rightarrow> (storeInput p ss2 ss_in, Returns (storePtr p ss2) None))))))"

text \<open>\<^verbatim>\<open>DefaultDaemonSet\<close> (lines 163 to 179).\<close>

definition DefaultDaemonSet :: "DaemonSet reconciler \<Rightarrow> DaemonSet reconciler" where
  "DefaultDaemonSet reconciler ds =
     (let old = ds in
      case reconciler ds of
        (ds_in, Panics) \<Rightarrow> (ds_in, Panics)
      | (ds_in, Returns p (Some err)) \<Rightarrow> (ds_in, Returns NilPtr (Some err))
      | (ds_in, Returns p None) \<Rightarrow>
          (case old of
             None \<Rightarrow> (ds_in, Panics)
           | Some old' \<Rightarrow>
               (case deref p ds_in of
                  None \<Rightarrow> (ds_in, Panics)
                | Some ds1 \<Rightarrow>
                    (case DefaultPodSpec (tmpl_Spec (ds_Template (ds_Spec old')))
                                         (tmpl_Spec (ds_Template (ds_Spec ds1))) of
                       (spec, err) \<Rightarrow>
                         let ds2 = ds1\<lparr>ds_Spec := (ds_Spec ds1)
                                     \<lparr>ds_Template := (ds_Template (ds_Spec ds1))\<lparr>tmpl_Spec := spec\<rparr>\<rparr>\<rparr>
                         in (case err of
                               Some e \<Rightarrow> (storeInput p ds2 ds_in, Returns NilPtr (Some e))
                             | None \<Rightarrow> (storeInput p ds2 ds_in, Returns (storePtr p ds2) None))))))"

text \<open>
  \<^verbatim>\<open>DefaultCronJob\<close> (lines 183 to 199): the pod spec sits one level deeper, under
  the job template.
\<close>

definition DefaultCronJob :: "CronJob reconciler \<Rightarrow> CronJob reconciler" where
  "DefaultCronJob reconciler cj =
     (let old = cj in
      case reconciler cj of
        (cj_in, Panics) \<Rightarrow> (cj_in, Panics)
      | (cj_in, Returns p (Some err)) \<Rightarrow> (cj_in, Returns NilPtr (Some err))
      | (cj_in, Returns p None) \<Rightarrow>
          (case old of
             None \<Rightarrow> (cj_in, Panics)
           | Some old' \<Rightarrow>
               (case deref p cj_in of
                  None \<Rightarrow> (cj_in, Panics)
                | Some cj1 \<Rightarrow>
                    (case DefaultPodSpec
                            (tmpl_Spec (job_Template (jt_Spec (JobTemplate (cj_Spec old')))))
                            (tmpl_Spec (job_Template (jt_Spec (JobTemplate (cj_Spec cj1))))) of
                       (spec, err) \<Rightarrow>
                         let jt = JobTemplate (cj_Spec cj1);
                             cj2 = cj1\<lparr>cj_Spec := (cj_Spec cj1)
                                     \<lparr>JobTemplate := jt\<lparr>jt_Spec := (jt_Spec jt)
                                        \<lparr>job_Template := (job_Template (jt_Spec jt))\<lparr>tmpl_Spec := spec\<rparr>\<rparr>\<rparr>\<rparr>\<rparr>
                         in (case err of
                               Some e \<Rightarrow> (storeInput p cj2 cj_in, Returns NilPtr (Some e))
                             | None \<Rightarrow> (storeInput p cj2 cj_in, Returns (storePtr p cj2) None))))))"

text \<open>
  The object behind the pointer that a call returned: nothing when the call panicked
  or returned the nil pointer.
\<close>

definition returned :: "'o option \<times> 'o outcome \<Rightarrow> 'o option" where
  "returned r = (case snd r of Panics \<Rightarrow> None | Returns p err \<Rightarrow> deref p (fst r))"

section \<open>Example objects\<close>

text \<open>Concrete pod specs, workloads and inner reconcilers, on which the theorems are run.\<close>

definition exSecurityContext :: "ProcMountType option \<Rightarrow> SecurityContext" where
  "exSecurityContext pm = \<lparr>Privileged = None, RunAsUser = None, ProcMount = pm\<rparr>"

text \<open>
  A store of security contexts: the object at a listed address has the listed isolation
  mode, every other object has none.
\<close>

definition exHeap :: "(addr \<times> ProcMountType option) list \<Rightarrow> addr \<Rightarrow> SecurityContext" where
  "exHeap modes a =
     exSecurityContext (case map_of modes a of None \<Rightarrow> None | Some pm \<Rightarrow> pm)"

definition exContainer :: "string \<Rightarrow> string \<Rightarrow> addr option \<Rightarrow> Container" where
  "exContainer name img sc =
     \<lparr>c_Name = name, Image = img, ImagePullPolicy = '''', TerminationMessagePath = '''',
      TerminationMessagePolicy = '''', Env = [], c_SecurityContext = sc\<rparr>"

definition exPodSpec ::
  "Container list \<Rightarrow> Container list \<Rightarrow> (addr \<Rightarrow> SecurityContext) \<Rightarrow> PodSpec" where
  "exPodSpec inits mains heap =
     \<lparr>Volumes = [], InitContainers = inits, Containers = mains, ServiceAccountName = '''',
      pod_SecurityContext = None, sc_heap = heap\<rparr>"

definition carryOld :: PodSpec where
  "carryOld = exPodSpec
     [exContainer ''setup'' ''busybox:1'' (Some 1)]
     [exContainer ''app'' ''app:1'' (Some 2),
      exContainer ''sidecar'' ''proxy:1'' None]
     (exHeap [(1, Some ''Unmasked''), (2, Some ''Unmasked'')])"

definition carryNew :: PodSpec where
  "carryNew = exPodSpec
     [exContainer ''setup'' ''busybox:2'' (Some 1)]
     [exContainer ''sidecar'' ''proxy:2'' None,
      exContainer ''app'' ''app:2'' (Some 2)]
     (exHeap [])"

text \<open>
  New pod specs in which two containers hold the same \<^verbatim>\<open>*SecurityContext\<close>, the one at
  address 1, and the old pod specs they are normalized against. Container names are
  unique in every list.
\<close>

definition sharedOld :: PodSpec where
  "sharedOld = exPodSpec [] [exContainer ''app'' ''app:1'' (Some 1)]
     (exHeap [(1, Some ''Unmasked'')])"

definition sharedNewAppFirst :: PodSpec where
  "sharedNewAppFirst = exPodSpec []
     [exContainer ''app'' ''app:2'' (Some 1), exContainer ''x'' ''x:1'' (Some 1)]
     (exHeap [])"

definition sharedNewAppLast :: PodSpec where
  "sharedNewAppLast = exPodSpec []
     [exContainer ''x'' ''x:1'' (Some 1), exContainer ''app'' ''app:2'' (Some 1)]
     (exHeap [])"

definition sharedAcrossOld :: PodSpec where
  "sharedAcrossOld = exPodSpec [] [exContainer ''h'' ''h:1'' (Some 1)]
     (exHeap [(1, Some ''Unmasked'')])"

definition sharedAcrossNew :: PodSpec where
  "sharedAcrossNew = exPodSpec
     [exContainer ''h'' ''h:2'' (Some 1)]
     [exContainer ''h'' ''h:2'' (Some 1)]
     (exHeap [])"

definition freshOld :: PodSpec where
  "freshOld = exPodSpec
     [exContainer ''migrate'' ''tool:1'' None]
     [exContainer ''app'' ''app:1'' (Some 1),
      exContainer ''sidecar'' ''proxy:1'' None]
     (exHeap [(1, Some ''Unmasked'')])"

definition freshNew :: PodSpec where
  "freshNew = exPodSpec
     [exContainer ''migrate'' ''tool:2'' (Some 1)]
     [exContainer ''x'' ''x:1'' (Some 2),
      exContainer ''sidecar'' ''proxy:2'' (Some 3)]
     (exHeap [(1, Some ''Unmasked''), (2, Some ''Unmasked''), (3, Some ''Unmasked'')])"

definition nullNew :: PodSpec where
  "nullNew = exPodSpec
     [exContainer ''setup'' ''busybox:2'' None]
     [exContainer ''app'' ''app:2'' None]
     (exHeap [])"

definition crossOld :: PodSpec where
  "crossOld = exPodSpec
     [exContainer ''worker'' ''worker:1'' (Some 1)]
     [exContainer ''helper'' ''helper:1'' (Some 2)]
     (exHeap [(1, Some ''Unmasked''), (2, Some ''Unmasked'')])"

definition crossNew :: PodSpec where
  "crossNew = exPodSpec
     [exContainer ''helper'' ''helper:2'' (Some 1)]
     [exContainer ''worker'' ''worker:2'' (Some 2)]
     (exHeap [(1, Some ''Default''), (2, Some ''Default'')])"

definition exPodSecurityContext :: "SeccompProfile option \<Rightarrow> PodSecurityContext" where
  "exPodSecurityContext prof =
     \<lparr>pod_RunAsUser = Some 1000, RunAsNonRoot = Some True, SeccompProfile = prof\<rparr>"

definition exLocalhostProfile :: SeccompProfile where
  "exLocalhostProfile =
     \<lparr>seccomp_Type = ''Localhost'', LocalhostProfile = Some ''profiles/audit.json''\<rparr>"

text \<open>
  A volume with an optional secret source and an optional config-map source, each with
  an optional access mode; with neither source it is a host path.
\<close>

definition exVolume :: "string \<Rightarrow> 32 word option option \<Rightarrow> 32 word option option \<Rightarrow> Volume" where
  "exVolume name secretMode configMapMode =
     \<lparr>v_Name = name,
      VolumeSource =
        \<lparr>HostPath = (if secretMode = None \<and> configMapMode = None then Some ''/var/lib/data'' else None),
         Secret = map_option (\<lambda>m. \<lparr>SecretName = ''tls'', secret_DefaultMode = m\<rparr>) secretMode,
         ConfigMap = map_option (\<lambda>m. \<lparr>cm_Name = ''settings'', cm_DefaultMode = m\<rparr>) configMapMode\<rparr>\<rparr>"

text \<open>The access mode 256 is octal 0400.\<close>

definition volumesNew :: PodSpec where
  "volumesNew = (exPodSpec [] [] (exHeap []))
     \<lparr>Volumes := [exVolume ''certs'' (Some None) None,
                  exVolume ''keys'' (Some (Some 256)) None,
                  exVolume ''config'' None (Some None),
                  exVolume ''data'' None None]\<rparr>"

definition exTemplate :: "PodSpec \<Rightarrow> PodTemplateSpec" where
  "exTemplate spec = \<lparr>tmpl_Labels = [(''app'', ''demo'')], tmpl_Spec = spec\<rparr>"

definition exDeployment :: "DeploymentStrategy \<Rightarrow> PodSpec \<Rightarrow> Deployment" where
  "exDeployment strategy spec =
     \<lparr>dep_Name = ''demo'',
      dep_Spec = \<lparr>dep_Replicas = Some 2, Strategy = strategy, dep_Template = exTemplate spec\<rparr>\<rparr>"

definition exStatefulSet :: "PodSpec \<Rightarrow> StatefulSet" where
  "exStatefulSet spec =
     \<lparr>sts_Name = ''demo'',
      sts_Spec = \<lparr>sts_Replicas = Some 3, ServiceName = ''demo'', sts_Template = exTemplate spec\<rparr>\<rparr>"

definition exDaemonSet :: "PodSpec \<Rightarrow> DaemonSet" where
  "exDaemonSet spec =
     \<lparr>ds_Name = ''demo'', ds_Spec = \<lparr>MinReadySeconds = 0, ds_Template = exTemplate spec\<rparr>\<rparr>"

definition exCronJob :: "PodSpec \<Rightarrow> CronJob" where
  "exCronJob spec =
     \<lparr>cj_Name = ''demo'',
      cj_Spec = \<lparr>Schedule = ''@daily'',
                 JobTemplate = \<lparr>jt_Labels = [],
                                 jt_Spec = \<lparr>BackoffLimit = None, job_Template = exTemplate spec\<rparr>\<rparr>\<rparr>\<rparr>"

definition exBounds :: RollingUpdateDeployment where
  "exBounds = \<lparr>MaxUnavailable = Some \<lparr>intstr_Type = intstr_String, IntVal = 0, StrVal = ''25%''\<rparr>,
               MaxSurge = None\<rparr>"

text \<open>
  Inner reconcilers that fail. The first two write to the object they are given before
  they fail; the last one returns an object together with its error.
\<close>

definition failingDeployment :: "Deployment reconciler" where
  "failingDeployment d =
     (map_option (\<lambda>x. x\<lparr>dep_Name := ''renamed''\<rparr>) d, Returns InputPtr (Some ''quota exceeded''))"

definition failingStatefulSet :: "StatefulSet reconciler" where
  "failingStatefulSet ss =
     (map_option (\<lambda>x. x\<lparr>sts_Name := ''renamed''\<rparr>) ss, Returns NilPtr (Some ''quota exceeded''))"

definition failingDaemonSet :: "DaemonSet reconciler" where
  "failingDaemonSet ds = (ds, Returns InputPtr (Some ''quota exceeded''))"

definition failingCronJob :: "CronJob reconciler" where
  "failingCronJob cj = (cj, Returns (OtherPtr (exCronJob carryNew)) (Some ''quota exceeded''))"

text \<open>
  An inner reconciler that replaces the whole spec of the object it is given and
  returns the pointer it was given.
\<close>

definition rebuildDeployment :: "DeploymentStrategy \<Rightarrow> PodSpec \<Rightarrow> Deployment reconciler" where
  "rebuildDeployment strategy spec d =
     (map_option (\<lambda>x. x\<lparr>dep_Spec := \<lparr>dep_Replicas = Some 3, Strategy = strategy,
                                      dep_Template = exTemplate spec\<rparr>\<rparr>) d,
      Returns InputPtr None)"

section \<open>Auxiliary facts\<close>

subsection \<open>Loops over the indices of a slice\<close>

text \<open>
  A loop that visits every index once and replaces the element there by a function of
  that element computes a \<open>map\<close>.
\<close>

lemma fold_index_update:
  "n \<le> length xs \<Longrightarrow>
   fold (\<lambda>idx ys. ys[idx := f (ys ! idx)]) [0..<n] xs = map f (take n xs) @ drop n xs"
proof (induction n)
  case 0
  then show ?case by simp
next
  case (Suc n)
  then have lt: "n < length xs" by simp
  have "fold (\<lambda>idx ys. ys[idx := f (ys ! idx)]) [0..<Suc n] xs
        = (map f (take n xs) @ drop n xs)[n := f ((map f (take n xs) @ drop n xs) ! n)]"
    using Suc by simp
  also have "(map f (take n xs) @ drop n xs) ! n = xs ! n"
    using lt by (simp add: nth_append)
  also have "(map f (take n xs) @ drop n xs)[n := f (xs ! n)]
        = map f (take n xs) @ (drop n xs)[0 := f (xs ! n)]"
    using lt by (simp add: list_update_append)
  also have "drop n xs = xs ! n # drop (Suc n) xs"
    using lt by (simp add: Cons_nth_drop_Suc)
  finally show ?case using lt by (simp add: take_Suc_conv_app_nth)
qed

lemma fold_index_update_map:
  "fold (\<lambda>idx ys. ys[idx := f (ys ! idx)]) [0..<length xs] xs = map f xs"
  using fold_index_update [of "length xs" xs f] by simp

lemma defaultVolumes_map: "defaultVolumes vs = map defaultVolume vs"
  unfolding defaultVolumes_def by (rule fold_index_update_map)

subsection \<open>DefaultContainer, field by field\<close>

text \<open>
  The container that \<^verbatim>\<open>DefaultContainer\<close> leaves depends neither on the store nor on the
  isolation mode it is handed; the store changes at the address the container holds.
\<close>

lemma defaultEnvVar_idem: "defaultEnvVar (defaultEnvVar e) = defaultEnvVar e"
  by (simp add: defaultEnvVar_def split: option.splits)

lemma DefaultContainer_heap:
  "fst (DefaultContainer heap c p) =
     (case c_SecurityContext c of
        None \<Rightarrow> heap
      | Some a \<Rightarrow> heap(a := (heap a)\<lparr>ProcMount := p\<rparr>))"
  by (simp add: DefaultContainer_def Let_def split: option.splits)

lemma DefaultContainer_Name [simp]: "c_Name (snd (DefaultContainer heap c p)) = c_Name c"
  by (simp add: DefaultContainer_def Let_def split: option.splits)

lemma DefaultContainer_SecurityContext [simp]:
  "c_SecurityContext (snd (DefaultContainer heap c p)) = c_SecurityContext c"
  by (simp add: DefaultContainer_def Let_def split: option.splits)

lemma DefaultContainer_Image: "Image (snd (DefaultContainer heap c p)) = Image c"
  by (simp add: DefaultContainer_def Let_def split: option.splits)

lemma DefaultContainer_ImagePullPolicy:
  "ImagePullPolicy (snd (DefaultContainer heap c p)) =
     (if ImagePullPolicy c = '''' then PullIfNotPresent else ImagePullPolicy c)"
  by (simp add: DefaultContainer_def Let_def split: option.splits)

lemma DefaultContainer_TerminationMessagePath:
  "TerminationMessagePath (snd (DefaultContainer heap c p)) =
     (if TerminationMessagePath c = '''' then TerminationMessagePathDefault
      else TerminationMessagePath c)"
  by (simp add: DefaultContainer_def Let_def split: option.splits)

lemma DefaultContainer_TerminationMessagePolicy:
  "TerminationMessagePolicy (snd (DefaultContainer heap c p)) =
     (if TerminationMessagePolicy c = '''' then TerminationMessageReadFile
      else TerminationMessagePolicy c)"
  by (simp add: DefaultContainer_def Let_def split: option.splits)

lemma DefaultContainer_Env:
  "Env (snd (DefaultContainer heap c p)) = map defaultEnvVar (Env c)"
  by (simp add: DefaultContainer_def Let_def fold_index_update_map split: option.splits)

lemma DefaultContainer_more:
  "Container.more (snd (DefaultContainer heap c p)) = Container.more c"
  by (simp add: DefaultContainer_def Let_def split: option.splits)

lemma DefaultContainer_snd_indep:
  "snd (DefaultContainer heap c p) = snd (DefaultContainer heap' c p')"
  by (rule Container.equality)
     (simp_all add: DefaultContainer_Image DefaultContainer_ImagePullPolicy
        DefaultContainer_TerminationMessagePath DefaultContainer_TerminationMessagePolicy
        DefaultContainer_Env DefaultContainer_more)

lemma DefaultContainer_idem:
  "snd (DefaultContainer heap' (snd (DefaultContainer heap c p)) p') = snd (DefaultContainer heap c p)"
proof (rule Container.equality)
  show "ImagePullPolicy (snd (DefaultContainer heap' (snd (DefaultContainer heap c p)) p'))
        = ImagePullPolicy (snd (DefaultContainer heap c p))"
    by (simp add: DefaultContainer_ImagePullPolicy PullIfNotPresent_def)
  show "TerminationMessagePath (snd (DefaultContainer heap' (snd (DefaultContainer heap c p)) p'))
        = TerminationMessagePath (snd (DefaultContainer heap c p))"
    by (simp add: DefaultContainer_TerminationMessagePath TerminationMessagePathDefault_def)
  show "TerminationMessagePolicy (snd (DefaultContainer heap' (snd (DefaultContainer heap c p)) p'))
        = TerminationMessagePolicy (snd (DefaultContainer heap c p))"
    by (simp add: DefaultContainer_TerminationMessagePolicy TerminationMessageReadFile_def)
  show "Env (snd (DefaultContainer heap' (snd (DefaultContainer heap c p)) p'))
        = Env (snd (DefaultContainer heap c p))"
    by (simp add: DefaultContainer_Env defaultEnvVar_idem)
qed (simp_all add: DefaultContainer_Image DefaultContainer_more)

lemma defaultContainers_prefix:
  "n \<le> length cs \<Longrightarrow>
   fold (\<lambda>idx (heap, cs).
           (case DefaultContainer heap (cs ! idx) (lookupProcMount m (c_Name (cs ! idx))) of
              (heap', c') \<Rightarrow> (heap', cs[idx := c'])))
        [0..<n] (heap, cs)
   = (procMountWrites m (take n cs) heap,
      map (\<lambda>c. snd (DefaultContainer heap c None)) (take n cs) @ drop n cs)"
proof (induction n)
  case 0
  then show ?case by simp
next
  case (Suc n)
  then have lt: "n < length cs" by simp
  let ?f = "\<lambda>c. snd (DefaultContainer heap c None)"
  let ?h = "procMountWrites m (take n cs) heap"
  have nth: "(map ?f (take n cs) @ drop n cs) ! n = cs ! n"
    using lt by (simp add: nth_append)
  have upd: "(map ?f (take n cs) @ drop n cs)[n := ?f (cs ! n)]
        = map ?f (take (Suc n) cs) @ drop (Suc n) cs"
  proof -
    have d: "drop n cs = cs ! n # drop (Suc n) cs"
      using lt by (simp add: Cons_nth_drop_Suc)
    show ?thesis
      unfolding d
      using lt list_update_length [of "map ?f (take n cs)" "cs ! n" "drop (Suc n) cs" "?f (cs ! n)"]
      by (simp add: take_Suc_conv_app_nth)
  qed
  have snd_eq: "snd (DefaultContainer ?h (cs ! n) (lookupProcMount m (c_Name (cs ! n)))) = ?f (cs ! n)"
    by (rule DefaultContainer_snd_indep)
  have "fold (\<lambda>idx (heap, cs).
           (case DefaultContainer heap (cs ! idx) (lookupProcMount m (c_Name (cs ! idx))) of
              (heap', c') \<Rightarrow> (heap', cs[idx := c'])))
        [0..<Suc n] (heap, cs)
      = (fst (DefaultContainer ?h (cs ! n) (lookupProcMount m (c_Name (cs ! n)))),
         (map ?f (take n cs) @ drop n cs)[n := snd (DefaultContainer ?h (cs ! n) (lookupProcMount m (c_Name (cs ! n))))])"
    using Suc by (simp add: nth split: prod.splits)
  also have "\<dots> = (procMountWrites m (take (Suc n) cs) heap,
                    map ?f (take (Suc n) cs) @ drop (Suc n) cs)"
    using lt by (simp only: snd_eq upd) (simp add: take_Suc_conv_app_nth DefaultContainer_heap)
  finally show ?case .
qed

lemma defaultContainers_eq:
  "defaultContainers m (heap, cs) =
     (procMountWrites m cs heap, map (\<lambda>c. snd (DefaultContainer heap c None)) cs)"
  unfolding defaultContainers_def
  using defaultContainers_prefix [of "length cs" cs m heap] by simp

subsection \<open>The writes to the store\<close>

text \<open>
  At every address, a loop either leaves the object alone or replaces its isolation
  mode by that of the last container pointing to it, and changes no other field.
\<close>

lemma writes_untouched:
  "\<not> (\<exists>c\<in>set cs. c_SecurityContext c = Some a) \<Longrightarrow> procMountWrites m cs heap a = heap a"
  by (induction cs arbitrary: heap) (auto split: option.splits)

lemma writes_shape:
  "\<exists>w. \<forall>heap. procMountWrites m cs heap a =
           (case w of None \<Rightarrow> heap a | Some v \<Rightarrow> (heap a)\<lparr>ProcMount := v\<rparr>)"
proof (induction cs)
  case Nil
  have "\<forall>heap. procMountWrites m [] heap a =
          (case None of None \<Rightarrow> heap a | Some v \<Rightarrow> (heap a)\<lparr>ProcMount := v\<rparr>)"
    by simp
  then show ?case by blast
next
  case (Cons c cs)
  then obtain w where w: "\<And>heap. procMountWrites m cs heap a =
           (case w of None \<Rightarrow> heap a | Some v \<Rightarrow> (heap a)\<lparr>ProcMount := v\<rparr>)"
    by blast
  show ?case
  proof (cases w)
    case (Some v)
    have "\<forall>heap. procMountWrites m (c # cs) heap a =
            (case Some v of None \<Rightarrow> heap a | Some v \<Rightarrow> (heap a)\<lparr>ProcMount := v\<rparr>)"
      using Some by (simp add: w split: option.splits)
    then show ?thesis by blast
  next
    case None
    show ?thesis
    proof (cases "c_SecurityContext c = Some a")
      case True
      have "\<forall>heap. procMountWrites m (c # cs) heap a =
              (case Some (lookupProcMount m (c_Name c)) of
                 None \<Rightarrow> heap a | Some v \<Rightarrow> (heap a)\<lparr>ProcMount := v\<rparr>)"
        using None True by (simp add: w)
      then show ?thesis by blast
    next
      case False
      have "\<forall>heap. procMountWrites m (c # cs) heap a =
              (case None of None \<Rightarrow> heap a | Some v \<Rightarrow> (heap a)\<lparr>ProcMount := v\<rparr>)"
        using None False by (auto simp add: w split: option.splits)
      then show ?thesis by blast
    qed
  qed
qed

lemma writes_keep_fields:
  "\<exists>v. procMountWrites m cs heap a = (heap a)\<lparr>ProcMount := v\<rparr>"
proof -
  obtain w where w: "\<And>heap. procMountWrites m cs heap a =
           (case w of None \<Rightarrow> heap a | Some v \<Rightarrow> (heap a)\<lparr>ProcMount := v\<rparr>)"
    using writes_shape [of m cs a] by blast
  show ?thesis
  proof (cases w)
    case None
    then have "procMountWrites m cs heap a = (heap a)\<lparr>ProcMount := ProcMount (heap a)\<rparr>"
      by (simp add: w)
    then show ?thesis by blast
  next
    case (Some v)
    then have "procMountWrites m cs heap a = (heap a)\<lparr>ProcMount := v\<rparr>"
      by (simp add: w)
    then show ?thesis by blast
  qed
qed

lemma writes_last:
  assumes "c_SecurityContext c = Some a"
    and "\<not> (\<exists>c'\<in>set post. c_SecurityContext c' = Some a)"
  shows "procMountWrites m (pre @ c # post) heap a
           = (heap a)\<lparr>ProcMount := lookupProcMount m (c_Name c)\<rparr>"
proof -
  obtain v where v: "procMountWrites m pre heap a = (heap a)\<lparr>ProcMount := v\<rparr>"
    using writes_keep_fields [of m pre heap a] by blast
  show ?thesis
    using assms by (simp add: writes_untouched v)
qed

lemma writes_at_index:
  assumes "i < length cs" and "c_SecurityContext (cs ! i) = Some a"
    and "\<not> (\<exists>c\<in>set (drop (Suc i) cs). c_SecurityContext c = Some a)"
  shows "procMountWrites m cs heap a
           = (heap a)\<lparr>ProcMount := lookupProcMount m (c_Name (cs ! i))\<rparr>"
proof -
  have "cs = take i cs @ cs ! i # drop (Suc i) cs"
    using assms(1) by (rule id_take_nth_drop)
  then have "procMountWrites m cs heap a
      = procMountWrites m (take i cs @ cs ! i # drop (Suc i) cs) heap a"
    by simp
  also have "\<dots> = (heap a)\<lparr>ProcMount := lookupProcMount m (c_Name (cs ! i))\<rparr>"
    using assms(2,3) by (rule writes_last)
  finally show ?thesis .
qed

lemma writes_map:
  "(\<And>c. c_Name (f c) = c_Name c) \<Longrightarrow> (\<And>c. c_SecurityContext (f c) = c_SecurityContext c) \<Longrightarrow>
   procMountWrites m (map f cs) heap = procMountWrites m cs heap"
  by (induction cs arbitrary: heap) (simp_all split: option.splits)

lemma writes_twice:
  "procMountWrites mC cs (procMountWrites mI ics (procMountWrites mC cs (procMountWrites mI ics heap)))
     = procMountWrites mC cs (procMountWrites mI ics heap)"
proof (rule ext)
  fix a
  obtain wC where wC: "\<And>h. procMountWrites mC cs h a =
           (case wC of None \<Rightarrow> h a | Some v \<Rightarrow> (h a)\<lparr>ProcMount := v\<rparr>)"
    using writes_shape [of mC cs a] by blast
  obtain wI where wI: "\<And>h. procMountWrites mI ics h a =
           (case wI of None \<Rightarrow> h a | Some v \<Rightarrow> (h a)\<lparr>ProcMount := v\<rparr>)"
    using writes_shape [of mI ics a] by blast
  show "procMountWrites mC cs (procMountWrites mI ics (procMountWrites mC cs (procMountWrites mI ics heap))) a
     = procMountWrites mC cs (procMountWrites mI ics heap) a"
    by (cases wC; cases wI) (simp_all add: wC wI)
qed

subsection \<open>The name-keyed lookups\<close>

text \<open>
  The entry of a name is the isolation mode of the last old container of that name
  that has a security context; a name with no such container has no entry.
\<close>

lemma collect_step_miss:
  "\<forall>c\<in>set cs. c_Name c = n \<longrightarrow> c_SecurityContext c = None \<Longrightarrow>
   fold (\<lambda>container m.
           (case c_SecurityContext container of
              None \<Rightarrow> m
            | Some a \<Rightarrow> m(c_Name container \<mapsto> ProcMount (heap a)))) cs m n = m n"
  by (induction cs arbitrary: m) (auto split: option.splits)

lemma collectProcMount_miss:
  "\<forall>c\<in>set cs. c_Name c = n \<longrightarrow> c_SecurityContext c = None \<Longrightarrow>
   collectProcMount heap cs n = None"
  unfolding collectProcMount_def by (simp add: collect_step_miss)

lemma collectProcMount_last:
  "c_Name oc = n \<Longrightarrow> c_SecurityContext oc = Some oa \<Longrightarrow>
   \<forall>c\<in>set post. c_Name c = n \<longrightarrow> c_SecurityContext c = None \<Longrightarrow>
   collectProcMount heap (pre @ oc # post) n = Some (ProcMount (heap oa))"
  unfolding collectProcMount_def by (simp add: collect_step_miss)

lemma lookup_collect_last:
  assumes "cs = pre @ oc # post" "c_SecurityContext oc = Some oa"
    "\<not> (\<exists>c\<in>set post. c_Name c = c_Name oc \<and> c_SecurityContext c \<noteq> None)"
  shows "lookupProcMount (collectProcMount heap cs) (c_Name oc) = ProcMount (heap oa)"
proof -
  from assms(3) have "\<forall>c\<in>set post. c_Name c = c_Name oc \<longrightarrow> c_SecurityContext c = None"
    by blast
  with assms(1,2) show ?thesis
    by (simp add: lookupProcMount_def collectProcMount_last)
qed

lemma lookup_collect_miss:
  assumes "\<not> (\<exists>c\<in>set cs. c_Name c = n \<and> c_SecurityContext c \<noteq> None)"
  shows "lookupProcMount (collectProcMount heap cs) n = None"
proof -
  from assms have "\<forall>c\<in>set cs. c_Name c = n \<longrightarrow> c_SecurityContext c = None"
    by blast
  then show ?thesis
    by (simp add: lookupProcMount_def collectProcMount_miss)
qed

subsection \<open>DefaultPodSpec, field by field\<close>

lemma defaultVolume_idem: "defaultVolume (defaultVolume v) = defaultVolume v"
  by (simp add: defaultVolume_def Let_def split: option.splits)

lemma defaultVolume_Secret:
  "Secret (VolumeSource (defaultVolume v)) =
     (case Secret (VolumeSource v) of
        None \<Rightarrow> None
      | Some s \<Rightarrow> Some (if secret_DefaultMode s = None
                         then s\<lparr>secret_DefaultMode := Some SecretVolumeSourceDefaultMode\<rparr> else s))"
  by (simp add: defaultVolume_def Let_def split: option.splits)

lemma defaultVolume_ConfigMap:
  "ConfigMap (VolumeSource (defaultVolume v)) =
     (case ConfigMap (VolumeSource v) of
        None \<Rightarrow> None
      | Some cm \<Rightarrow> Some (if cm_DefaultMode cm = None
                          then cm\<lparr>cm_DefaultMode := Some ConfigMapVolumeSourceDefaultMode\<rparr> else cm))"
  by (simp add: defaultVolume_def Let_def split: option.splits)

lemma defaultVolume_frame:
  "v_Name (defaultVolume v) = v_Name v \<and>
   HostPath (VolumeSource (defaultVolume v)) = HostPath (VolumeSource v)"
  by (simp add: defaultVolume_def Let_def split: option.splits)

lemma defaultVolume_unchanged:
  "\<not> (\<exists>s. Secret (VolumeSource v) = Some s \<and> secret_DefaultMode s = None) \<Longrightarrow>
   \<not> (\<exists>cm. ConfigMap (VolumeSource v) = Some cm \<and> cm_DefaultMode cm = None) \<Longrightarrow>
   defaultVolume v = v"
  by (cases "Secret (VolumeSource v)"; cases "ConfigMap (VolumeSource v)")
     (auto simp add: defaultVolume_def Let_def)

lemma DefaultPodSpec_Containers:
  "Containers (fst (DefaultPodSpec old new)) =
     map (\<lambda>c. snd (DefaultContainer (sc_heap new) c None)) (Containers new)"
proof -
  let ?h = "procMountWrites (collectProcMount (sc_heap old) (InitContainers old))
              (InitContainers new) (sc_heap new)"
  have indep: "(\<lambda>c. snd (DefaultContainer ?h c None))
                 = (\<lambda>c. snd (DefaultContainer (sc_heap new) c None))"
    by (rule ext) (rule DefaultContainer_snd_indep)
  have "Containers (fst (DefaultPodSpec old new)) =
     map (\<lambda>c. snd (DefaultContainer ?h c None)) (Containers new)"
    by (simp add: DefaultPodSpec_def Let_def defaultContainers_eq)
  also have "\<dots> = map (\<lambda>c. snd (DefaultContainer (sc_heap new) c None)) (Containers new)"
    by (rule arg_cong [where f = "\<lambda>g. map g (Containers new)", OF indep])
  finally show ?thesis .
qed

lemma DefaultPodSpec_InitContainers:
  "InitContainers (fst (DefaultPodSpec old new)) =
     map (\<lambda>c. snd (DefaultContainer (sc_heap new) c None)) (InitContainers new)"
  by (simp add: DefaultPodSpec_def Let_def defaultContainers_eq)

lemma DefaultPodSpec_heap:
  "sc_heap (fst (DefaultPodSpec old new)) =
     procMountWrites (collectProcMount (sc_heap old) (Containers old)) (Containers new)
       (procMountWrites (collectProcMount (sc_heap old) (InitContainers old)) (InitContainers new)
          (sc_heap new))"
  by (simp add: DefaultPodSpec_def Let_def defaultContainers_eq)

lemma DefaultPodSpec_Volumes:
  "Volumes (fst (DefaultPodSpec old new)) = map defaultVolume (Volumes new)"
  by (simp add: DefaultPodSpec_def Let_def defaultVolumes_map)

lemma DefaultPodSpec_ServiceAccountName:
  "ServiceAccountName (fst (DefaultPodSpec old new)) = ServiceAccountName new"
  by (simp add: DefaultPodSpec_def Let_def)

lemma DefaultPodSpec_more:
  "PodSpec.more (fst (DefaultPodSpec old new)) = PodSpec.more new"
  by (simp add: DefaultPodSpec_def Let_def)

lemma DefaultPodSpec_SecurityContext:
  "pod_SecurityContext (fst (DefaultPodSpec old new)) =
     Some (case pod_SecurityContext new of
             None \<Rightarrow> emptyPodSecurityContext\<lparr>SeccompProfile :=
                        Some \<lparr>seccomp_Type = SeccompProfileTypeRuntimeDefault, LocalhostProfile = None\<rparr>\<rparr>
           | Some sc \<Rightarrow>
               (case SeccompProfile sc of
                  None \<Rightarrow> sc\<lparr>SeccompProfile :=
                            Some \<lparr>seccomp_Type = SeccompProfileTypeRuntimeDefault, LocalhostProfile = None\<rparr>\<rparr>
                | Some p \<Rightarrow> sc))"
  by (simp add: DefaultPodSpec_def Let_def emptyPodSecurityContext_def split: option.splits)

lemma DefaultPodSpec_snd: "snd (DefaultPodSpec old new) = None"
  by (simp add: DefaultPodSpec_def Let_def)

lemma DefaultPodSpec_no_error [simp]: "DefaultPodSpec a b \<noteq> (s, Some e)"
  using DefaultPodSpec_snd [of a b] by auto

lemma DefaultPodSpec_idem_heap:
  "sc_heap (fst (DefaultPodSpec T0 (fst (DefaultPodSpec T0 T)))) = sc_heap (fst (DefaultPodSpec T0 T))"
proof -
  let ?f = "\<lambda>c. snd (DefaultContainer (sc_heap T) c None)"
  have m: "procMountWrites m (map ?f cs) h = procMountWrites m cs h" for m cs h
    by (rule writes_map) simp_all
  show ?thesis
    unfolding DefaultPodSpec_heap [of T0 "fst (DefaultPodSpec T0 T)"]
    unfolding DefaultPodSpec_Containers DefaultPodSpec_InitContainers m
    unfolding DefaultPodSpec_heap [of T0 T]
    by (rule writes_twice)
qed

lemma DefaultPodSpec_idem_fst:
  "fst (DefaultPodSpec T0 (fst (DefaultPodSpec T0 T))) = fst (DefaultPodSpec T0 T)"
proof (rule PodSpec.equality)
  show "Volumes (fst (DefaultPodSpec T0 (fst (DefaultPodSpec T0 T)))) = Volumes (fst (DefaultPodSpec T0 T))"
    by (simp add: DefaultPodSpec_Volumes defaultVolume_idem)
  show "InitContainers (fst (DefaultPodSpec T0 (fst (DefaultPodSpec T0 T)))) = InitContainers (fst (DefaultPodSpec T0 T))"
    by (simp add: DefaultPodSpec_InitContainers DefaultContainer_idem)
  show "Containers (fst (DefaultPodSpec T0 (fst (DefaultPodSpec T0 T)))) = Containers (fst (DefaultPodSpec T0 T))"
    by (simp add: DefaultPodSpec_Containers DefaultContainer_idem)
  show "pod_SecurityContext (fst (DefaultPodSpec T0 (fst (DefaultPodSpec T0 T)))) = pod_SecurityContext (fst (DefaultPodSpec T0 T))"
    by (simp add: DefaultPodSpec_SecurityContext split: option.splits)
  show "sc_heap (fst (DefaultPodSpec T0 (fst (DefaultPodSpec T0 T)))) = sc_heap (fst (DefaultPodSpec T0 T))"
    by (rule DefaultPodSpec_idem_heap)
qed (simp_all add: DefaultPodSpec_ServiceAccountName DefaultPodSpec_more)

text \<open>
  The store after the call, at the object of a main container and of an init
  container. The main containers are processed last, so the last main container that
  points to an object decides its isolation mode.
\<close>

lemma DefaultPodSpec_main_object:
  assumes "i < length (Containers new)"
    and "c_SecurityContext (Containers new ! i) = Some a"
    and "\<not> (\<exists>c\<in>set (drop (Suc i) (Containers new)). c_SecurityContext c = Some a)"
  shows "sc_heap (fst (DefaultPodSpec old new)) a =
           (sc_heap new a)\<lparr>ProcMount :=
              lookupProcMount (collectProcMount (sc_heap old) (Containers old))
                (c_Name (Containers new ! i))\<rparr>"
proof -
  let ?mI = "collectProcMount (sc_heap old) (InitContainers old)"
  obtain v where v: "procMountWrites ?mI (InitContainers new) (sc_heap new) a
                       = (sc_heap new a)\<lparr>ProcMount := v\<rparr>"
    using writes_keep_fields [of ?mI "InitContainers new" "sc_heap new" a] by blast
  show ?thesis
    unfolding DefaultPodSpec_heap
    by (simp add: writes_at_index [OF assms] v)
qed

lemma DefaultPodSpec_init_object:
  assumes "j < length (InitContainers new)"
    and "c_SecurityContext (InitContainers new ! j) = Some a"
    and "\<not> (\<exists>c\<in>set (drop (Suc j) (InitContainers new)). c_SecurityContext c = Some a)"
    and "\<not> (\<exists>c\<in>set (Containers new). c_SecurityContext c = Some a)"
  shows "sc_heap (fst (DefaultPodSpec old new)) a =
           (sc_heap new a)\<lparr>ProcMount :=
              lookupProcMount (collectProcMount (sc_heap old) (InitContainers old))
                (c_Name (InitContainers new ! j))\<rparr>"
  unfolding DefaultPodSpec_heap
  by (simp add: writes_untouched [OF assms(4)] writes_at_index [OF assms(1,2,3)])

lemma DefaultPodSpec_main_object_any:
  assumes "i < length (Containers new)" and "c_SecurityContext (Containers new ! i) = Some a"
  shows "\<exists>n. \<forall>old. sc_heap (fst (DefaultPodSpec old new)) a =
           (sc_heap new a)\<lparr>ProcMount :=
              lookupProcMount (collectProcMount (sc_heap old) (Containers old)) n\<rparr>"
proof -
  from assms have "\<exists>c\<in>set (Containers new). c_SecurityContext c = Some a"
    using nth_mem by blast
  then obtain ys c zs where split: "Containers new = ys @ c # zs"
    and c: "c_SecurityContext c = Some a"
    and zs: "\<forall>z\<in>set zs. c_SecurityContext z \<noteq> Some a"
    using split_list_last_prop [of "Containers new" "\<lambda>c. c_SecurityContext c = Some a"] by blast
  from zs have zs': "\<not> (\<exists>c'\<in>set zs. c_SecurityContext c' = Some a)" by blast
  have "sc_heap (fst (DefaultPodSpec old new)) a =
           (sc_heap new a)\<lparr>ProcMount :=
              lookupProcMount (collectProcMount (sc_heap old) (Containers old)) (c_Name c)\<rparr>" for old
  proof -
    let ?mI = "collectProcMount (sc_heap old) (InitContainers old)"
    obtain v where v: "procMountWrites ?mI (InitContainers new) (sc_heap new) a
                         = (sc_heap new a)\<lparr>ProcMount := v\<rparr>"
      using writes_keep_fields [of ?mI "InitContainers new" "sc_heap new" a] by blast
    have w: "procMountWrites (collectProcMount (sc_heap old) (Containers old)) (Containers new) h a
               = (h a)\<lparr>ProcMount :=
                    lookupProcMount (collectProcMount (sc_heap old) (Containers old)) (c_Name c)\<rparr>" for h
      unfolding split by (rule writes_last [OF c zs'])
    show ?thesis
      unfolding DefaultPodSpec_heap w v by simp
  qed
  then show ?thesis by blast
qed

subsection \<open>The wrappers\<close>

lemma deref_storePtr_storeInput:
  "deref p d_in = Some inner \<Longrightarrow> deref (storePtr p v) (storeInput p v d_in) = Some v"
  by (cases p) simp_all

section \<open>The claims\<close>

text \<open>
  Claim C1, as amended (isolation-mode carry-forward). Let the old main-container list
  have a container named \<open>n\<close> with a security context whose isolation mode
  (\<^verbatim>\<open>ProcMount\<close>) is \<open>M\<close>; should the old list repeat the name, it is the last such
  container that counts. Let the new main-container list have a container named \<open>n\<close>
  with a security context, and let no later container of that list hold the same
  \<^verbatim>\<open>*SecurityContext\<close>. Then after \<^verbatim>\<open>DefaultPodSpec\<close> that container has its name and its
  pointer unchanged, and its security context has the isolation mode \<open>M\<close> and every
  other field as before, whatever mode it arrived with. The same holds for the
  init-container lists, when neither a later init container nor any main container
  holds the same \<^verbatim>\<open>*SecurityContext\<close>.
\<close>

theorem procMount_carried_when_not_shared:
  "(Containers oldPodSpec = pre @ oc # post \<and> c_SecurityContext oc = Some oa \<and>
    \<not> (\<exists>c\<in>set post. c_Name c = c_Name oc \<and> c_SecurityContext c \<noteq> None) \<and>
    i < length (Containers newPodSpec) \<and>
    c_Name (Containers newPodSpec ! i) = c_Name oc \<and>
    c_SecurityContext (Containers newPodSpec ! i) = Some a \<and>
    \<not> (\<exists>c\<in>set (drop (Suc i) (Containers newPodSpec)). c_SecurityContext c = Some a)
    \<longrightarrow> c_Name (Containers (fst (DefaultPodSpec oldPodSpec newPodSpec)) ! i) = c_Name oc \<and>
        c_SecurityContext (Containers (fst (DefaultPodSpec oldPodSpec newPodSpec)) ! i) = Some a \<and>
        sc_heap (fst (DefaultPodSpec oldPodSpec newPodSpec)) a
          = (sc_heap newPodSpec a)\<lparr>ProcMount := ProcMount (sc_heap oldPodSpec oa)\<rparr>)
   \<and>
   (InitContainers oldPodSpec = ipre @ ioc # ipost \<and> c_SecurityContext ioc = Some ioa \<and>
    \<not> (\<exists>c\<in>set ipost. c_Name c = c_Name ioc \<and> c_SecurityContext c \<noteq> None) \<and>
    j < length (InitContainers newPodSpec) \<and>
    c_Name (InitContainers newPodSpec ! j) = c_Name ioc \<and>
    c_SecurityContext (InitContainers newPodSpec ! j) = Some b \<and>
    \<not> (\<exists>c\<in>set (drop (Suc j) (InitContainers newPodSpec)). c_SecurityContext c = Some b) \<and>
    \<not> (\<exists>c\<in>set (Containers newPodSpec). c_SecurityContext c = Some b)
    \<longrightarrow> c_Name (InitContainers (fst (DefaultPodSpec oldPodSpec newPodSpec)) ! j) = c_Name ioc \<and>
        c_SecurityContext (InitContainers (fst (DefaultPodSpec oldPodSpec newPodSpec)) ! j) = Some b \<and>
        sc_heap (fst (DefaultPodSpec oldPodSpec newPodSpec)) b
          = (sc_heap newPodSpec b)\<lparr>ProcMount := ProcMount (sc_heap oldPodSpec ioa)\<rparr>)"
proof (intro conjI impI)
  assume h: "Containers oldPodSpec = pre @ oc # post \<and> c_SecurityContext oc = Some oa \<and>
    \<not> (\<exists>c\<in>set post. c_Name c = c_Name oc \<and> c_SecurityContext c \<noteq> None) \<and>
    i < length (Containers newPodSpec) \<and>
    c_Name (Containers newPodSpec ! i) = c_Name oc \<and>
    c_SecurityContext (Containers newPodSpec ! i) = Some a \<and>
    \<not> (\<exists>c\<in>set (drop (Suc i) (Containers newPodSpec)). c_SecurityContext c = Some a)"
  then have look: "lookupProcMount (collectProcMount (sc_heap oldPodSpec) (Containers oldPodSpec)) (c_Name oc)
                     = ProcMount (sc_heap oldPodSpec oa)"
    by (intro lookup_collect_last [of _ pre oc post]) simp_all
  from h show "c_Name (Containers (fst (DefaultPodSpec oldPodSpec newPodSpec)) ! i) = c_Name oc"
    by (simp add: DefaultPodSpec_Containers)
  from h show "c_SecurityContext (Containers (fst (DefaultPodSpec oldPodSpec newPodSpec)) ! i) = Some a"
    by (simp add: DefaultPodSpec_Containers)
  from h have "sc_heap (fst (DefaultPodSpec oldPodSpec newPodSpec)) a =
           (sc_heap newPodSpec a)\<lparr>ProcMount :=
              lookupProcMount (collectProcMount (sc_heap oldPodSpec) (Containers oldPodSpec))
                (c_Name (Containers newPodSpec ! i))\<rparr>"
    by (intro DefaultPodSpec_main_object) simp_all
  with h look show "sc_heap (fst (DefaultPodSpec oldPodSpec newPodSpec)) a
          = (sc_heap newPodSpec a)\<lparr>ProcMount := ProcMount (sc_heap oldPodSpec oa)\<rparr>"
    by simp
next
  assume h: "InitContainers oldPodSpec = ipre @ ioc # ipost \<and> c_SecurityContext ioc = Some ioa \<and>
    \<not> (\<exists>c\<in>set ipost. c_Name c = c_Name ioc \<and> c_SecurityContext c \<noteq> None) \<and>
    j < length (InitContainers newPodSpec) \<and>
    c_Name (InitContainers newPodSpec ! j) = c_Name ioc \<and>
    c_SecurityContext (InitContainers newPodSpec ! j) = Some b \<and>
    \<not> (\<exists>c\<in>set (drop (Suc j) (InitContainers newPodSpec)). c_SecurityContext c = Some b) \<and>
    \<not> (\<exists>c\<in>set (Containers newPodSpec). c_SecurityContext c = Some b)"
  then have look: "lookupProcMount (collectProcMount (sc_heap oldPodSpec) (InitContainers oldPodSpec)) (c_Name ioc)
                     = ProcMount (sc_heap oldPodSpec ioa)"
    by (intro lookup_collect_last [of _ ipre ioc ipost]) simp_all
  from h show "c_Name (InitContainers (fst (DefaultPodSpec oldPodSpec newPodSpec)) ! j) = c_Name ioc"
    by (simp add: DefaultPodSpec_InitContainers)
  from h show "c_SecurityContext (InitContainers (fst (DefaultPodSpec oldPodSpec newPodSpec)) ! j) = Some b"
    by (simp add: DefaultPodSpec_InitContainers)
  from h have "sc_heap (fst (DefaultPodSpec oldPodSpec newPodSpec)) b =
           (sc_heap newPodSpec b)\<lparr>ProcMount :=
              lookupProcMount (collectProcMount (sc_heap oldPodSpec) (InitContainers oldPodSpec))
                (c_Name (InitContainers newPodSpec ! j))\<rparr>"
    by (intro DefaultPodSpec_init_object) simp_all
  with h look show "sc_heap (fst (DefaultPodSpec oldPodSpec newPodSpec)) b
          = (sc_heap newPodSpec b)\<lparr>ProcMount := ProcMount (sc_heap oldPodSpec ioa)\<rparr>"
    by simp
qed

text \<open>
  The theorem at work: \<open>app\<close> and the init container \<open>setup\<close> arrive with a new image,
  at another position, and with no isolation mode, and leave with the mode
  \<open>Unmasked\<close> of the old revision.
\<close>

theorem procMount_carried_witness:
  "c_Name (Containers carryNew ! 1) = ''app'' \<and>
   c_SecurityContext (Containers carryNew ! 1) = Some 2 \<and>
   sc_heap carryNew 2 = exSecurityContext None \<and>
   c_SecurityContext (Containers (fst (DefaultPodSpec carryOld carryNew)) ! 1) = Some 2 \<and>
   sc_heap (fst (DefaultPodSpec carryOld carryNew)) 2 = exSecurityContext (Some ''Unmasked'') \<and>
   c_Name (InitContainers carryNew ! 0) = ''setup'' \<and>
   c_SecurityContext (InitContainers carryNew ! 0) = Some 1 \<and>
   sc_heap carryNew 1 = exSecurityContext None \<and>
   c_SecurityContext (InitContainers (fst (DefaultPodSpec carryOld carryNew)) ! 0) = Some 1 \<and>
   sc_heap (fst (DefaultPodSpec carryOld carryNew)) 1 = exSecurityContext (Some ''Unmasked'')"
  using procMount_carried_when_not_shared
    [where oldPodSpec = carryOld and newPodSpec = carryNew
       and pre = "[]" and oc = "exContainer ''app'' ''app:1'' (Some 2)"
       and post = "[exContainer ''sidecar'' ''proxy:1'' None]" and oa = 2 and i = 1 and a = 2
       and ipre = "[]" and ioc = "exContainer ''setup'' ''busybox:1'' (Some 1)"
       and ipost = "[]" and ioa = 1 and j = 0 and b = 1]
  by (simp add: carryOld_def carryNew_def exPodSpec_def exContainer_def exHeap_def
        exSecurityContext_def)

text \<open>
  Claim C1 as it was stated, for every pair of pod specs, fails when two new containers
  share one security context. Names are unique in both lists. The old \<open>app\<close> has the
  mode \<open>Unmasked\<close>; the new \<open>app\<close> and the new \<open>x\<close> hold the same
  \<^verbatim>\<open>*SecurityContext\<close>; \<open>x\<close> is processed after \<open>app\<close> and has no old counterpart, so
  the write of line 49 for \<open>x\<close> sets the shared object's mode to nil, and \<open>app\<close> is
  left without the mode it should have inherited.
\<close>

theorem procMount_carried_shared_counterexample:
  "distinct (map c_Name (Containers sharedOld)) \<and>
   distinct (map c_Name (Containers sharedNewAppFirst)) \<and>
   c_Name (Containers sharedOld ! 0) = ''app'' \<and>
   c_SecurityContext (Containers sharedOld ! 0) = Some 1 \<and>
   ProcMount (sc_heap sharedOld 1) = Some ''Unmasked'' \<and>
   c_Name (Containers sharedNewAppFirst ! 0) = ''app'' \<and>
   c_SecurityContext (Containers sharedNewAppFirst ! 0) = Some 1 \<and>
   c_Name (Containers (fst (DefaultPodSpec sharedOld sharedNewAppFirst)) ! 0) = ''app'' \<and>
   c_SecurityContext (Containers (fst (DefaultPodSpec sharedOld sharedNewAppFirst)) ! 0) = Some 1 \<and>
   ProcMount (sc_heap (fst (DefaultPodSpec sharedOld sharedNewAppFirst)) 1) = None \<and>
   ProcMount (sc_heap (fst (DefaultPodSpec sharedOld sharedNewAppFirst)) 1) \<noteq> Some ''Unmasked''"
  by (simp add: sharedOld_def sharedNewAppFirst_def exPodSpec_def exContainer_def exHeap_def
        exSecurityContext_def DefaultPodSpec_Containers DefaultPodSpec_heap
        lookupProcMount_def collectProcMount_def)

text \<open>
  Claim C2 (idempotence). For every pair of pod specs \<open>T0\<close> and \<open>T\<close>, normalizing the
  result of \<^verbatim>\<open>DefaultPodSpec(T0, T)\<close> once more against the same baseline \<open>T0\<close> gives
  the same pod spec and the same (nil) error.
\<close>

theorem DefaultPodSpec_idempotent:
  "DefaultPodSpec T0 (fst (DefaultPodSpec T0 T)) = DefaultPodSpec T0 T"
  by (rule prod_eqI) (simp_all add: DefaultPodSpec_idem_fst, simp_all add: DefaultPodSpec_def Let_def)

text \<open>
  Claim C3, as amended (overwrite to unset). Let no container named \<open>x\<close> of the old
  main-container list have a security context (there is no container of that name, or
  it has a nil security context). Let a container named \<open>x\<close> of the new
  main-container list have a security context, and let no later container of that list
  hold the same \<^verbatim>\<open>*SecurityContext\<close>. Then after \<^verbatim>\<open>DefaultPodSpec\<close> its security context
  has the isolation mode unset and every other field as before, whatever mode it
  arrived with. The same holds for the init-container lists, when neither a later init
  container nor any main container holds the same \<^verbatim>\<open>*SecurityContext\<close>.
\<close>

theorem procMount_unset_when_not_shared:
  "(\<not> (\<exists>c\<in>set (Containers oldPodSpec). c_Name c = x \<and> c_SecurityContext c \<noteq> None) \<and>
    i < length (Containers newPodSpec) \<and>
    c_Name (Containers newPodSpec ! i) = x \<and>
    c_SecurityContext (Containers newPodSpec ! i) = Some a \<and>
    \<not> (\<exists>c\<in>set (drop (Suc i) (Containers newPodSpec)). c_SecurityContext c = Some a)
    \<longrightarrow> c_SecurityContext (Containers (fst (DefaultPodSpec oldPodSpec newPodSpec)) ! i) = Some a \<and>
        sc_heap (fst (DefaultPodSpec oldPodSpec newPodSpec)) a
          = (sc_heap newPodSpec a)\<lparr>ProcMount := None\<rparr>)
   \<and>
   (\<not> (\<exists>c\<in>set (InitContainers oldPodSpec). c_Name c = y \<and> c_SecurityContext c \<noteq> None) \<and>
    j < length (InitContainers newPodSpec) \<and>
    c_Name (InitContainers newPodSpec ! j) = y \<and>
    c_SecurityContext (InitContainers newPodSpec ! j) = Some b \<and>
    \<not> (\<exists>c\<in>set (drop (Suc j) (InitContainers newPodSpec)). c_SecurityContext c = Some b) \<and>
    \<not> (\<exists>c\<in>set (Containers newPodSpec). c_SecurityContext c = Some b)
    \<longrightarrow> c_SecurityContext (InitContainers (fst (DefaultPodSpec oldPodSpec newPodSpec)) ! j) = Some b \<and>
        sc_heap (fst (DefaultPodSpec oldPodSpec newPodSpec)) b
          = (sc_heap newPodSpec b)\<lparr>ProcMount := None\<rparr>)"
proof (intro conjI impI)
  assume h: "\<not> (\<exists>c\<in>set (Containers oldPodSpec). c_Name c = x \<and> c_SecurityContext c \<noteq> None) \<and>
    i < length (Containers newPodSpec) \<and>
    c_Name (Containers newPodSpec ! i) = x \<and>
    c_SecurityContext (Containers newPodSpec ! i) = Some a \<and>
    \<not> (\<exists>c\<in>set (drop (Suc i) (Containers newPodSpec)). c_SecurityContext c = Some a)"
  then have look: "lookupProcMount (collectProcMount (sc_heap oldPodSpec) (Containers oldPodSpec)) x = None"
    by (intro lookup_collect_miss) simp
  from h show "c_SecurityContext (Containers (fst (DefaultPodSpec oldPodSpec newPodSpec)) ! i) = Some a"
    by (simp add: DefaultPodSpec_Containers)
  from h have "sc_heap (fst (DefaultPodSpec oldPodSpec newPodSpec)) a =
           (sc_heap newPodSpec a)\<lparr>ProcMount :=
              lookupProcMount (collectProcMount (sc_heap oldPodSpec) (Containers oldPodSpec))
                (c_Name (Containers newPodSpec ! i))\<rparr>"
    by (intro DefaultPodSpec_main_object) simp_all
  with h look show "sc_heap (fst (DefaultPodSpec oldPodSpec newPodSpec)) a
          = (sc_heap newPodSpec a)\<lparr>ProcMount := None\<rparr>"
    by simp
next
  assume h: "\<not> (\<exists>c\<in>set (InitContainers oldPodSpec). c_Name c = y \<and> c_SecurityContext c \<noteq> None) \<and>
    j < length (InitContainers newPodSpec) \<and>
    c_Name (InitContainers newPodSpec ! j) = y \<and>
    c_SecurityContext (InitContainers newPodSpec ! j) = Some b \<and>
    \<not> (\<exists>c\<in>set (drop (Suc j) (InitContainers newPodSpec)). c_SecurityContext c = Some b) \<and>
    \<not> (\<exists>c\<in>set (Containers newPodSpec). c_SecurityContext c = Some b)"
  then have look: "lookupProcMount (collectProcMount (sc_heap oldPodSpec) (InitContainers oldPodSpec)) y = None"
    by (intro lookup_collect_miss) simp
  from h show "c_SecurityContext (InitContainers (fst (DefaultPodSpec oldPodSpec newPodSpec)) ! j) = Some b"
    by (simp add: DefaultPodSpec_InitContainers)
  from h have "sc_heap (fst (DefaultPodSpec oldPodSpec newPodSpec)) b =
           (sc_heap newPodSpec b)\<lparr>ProcMount :=
              lookupProcMount (collectProcMount (sc_heap oldPodSpec) (InitContainers oldPodSpec))
                (c_Name (InitContainers newPodSpec ! j))\<rparr>"
    by (intro DefaultPodSpec_init_object) simp_all
  with h look show "sc_heap (fst (DefaultPodSpec oldPodSpec newPodSpec)) b
          = (sc_heap newPodSpec b)\<lparr>ProcMount := None\<rparr>"
    by simp
qed

text \<open>
  The theorem at work: the old pod spec has no container \<open>x\<close>, and its init container
  \<open>migrate\<close> has no security context; the new \<open>x\<close> and \<open>migrate\<close> both arrive with
  \<open>Unmasked\<close> and leave with no isolation mode.
\<close>

theorem procMount_unset_witness:
  "\<not> (\<exists>c\<in>set (Containers freshOld). c_Name c = ''x'') \<and>
   c_SecurityContext (Containers freshNew ! 0) = Some 2 \<and>
   sc_heap freshNew 2 = exSecurityContext (Some ''Unmasked'') \<and>
   c_SecurityContext (Containers (fst (DefaultPodSpec freshOld freshNew)) ! 0) = Some 2 \<and>
   sc_heap (fst (DefaultPodSpec freshOld freshNew)) 2 = exSecurityContext None \<and>
   \<not> (\<exists>c\<in>set (InitContainers freshOld). c_Name c = ''migrate'' \<and> c_SecurityContext c \<noteq> None) \<and>
   c_SecurityContext (InitContainers freshNew ! 0) = Some 1 \<and>
   sc_heap freshNew 1 = exSecurityContext (Some ''Unmasked'') \<and>
   c_SecurityContext (InitContainers (fst (DefaultPodSpec freshOld freshNew)) ! 0) = Some 1 \<and>
   sc_heap (fst (DefaultPodSpec freshOld freshNew)) 1 = exSecurityContext None"
  using procMount_unset_when_not_shared
    [where oldPodSpec = freshOld and newPodSpec = freshNew
       and x = "''x''" and i = 0 and a = 2 and y = "''migrate''" and j = 0 and b = 1]
  by (simp add: freshOld_def freshNew_def exPodSpec_def exContainer_def exHeap_def
        exSecurityContext_def)

text \<open>
  Claim C3 as it was stated fails when two new containers share one security context.
  Names are unique in both lists. No old container is named \<open>x\<close>; the new \<open>x\<close> and
  the new \<open>app\<close> hold the same \<^verbatim>\<open>*SecurityContext\<close>; \<open>app\<close> is processed after \<open>x\<close>
  and inherits \<open>Unmasked\<close>, so the write of line 49 for \<open>app\<close> leaves the security
  context of \<open>x\<close> with the mode \<open>Unmasked\<close>, not unset.
\<close>

theorem procMount_unset_shared_counterexample:
  "distinct (map c_Name (Containers sharedOld)) \<and>
   distinct (map c_Name (Containers sharedNewAppLast)) \<and>
   \<not> (\<exists>c\<in>set (Containers sharedOld). c_Name c = ''x'') \<and>
   c_Name (Containers sharedNewAppLast ! 0) = ''x'' \<and>
   c_SecurityContext (Containers sharedNewAppLast ! 0) = Some 1 \<and>
   c_Name (Containers (fst (DefaultPodSpec sharedOld sharedNewAppLast)) ! 0) = ''x'' \<and>
   c_SecurityContext (Containers (fst (DefaultPodSpec sharedOld sharedNewAppLast)) ! 0) = Some 1 \<and>
   ProcMount (sc_heap (fst (DefaultPodSpec sharedOld sharedNewAppLast)) 1) = Some ''Unmasked'' \<and>
   ProcMount (sc_heap (fst (DefaultPodSpec sharedOld sharedNewAppLast)) 1) \<noteq> None"
  by (simp add: sharedOld_def sharedNewAppLast_def exPodSpec_def exContainer_def exHeap_def
        exSecurityContext_def DefaultPodSpec_Containers DefaultPodSpec_heap
        lookupProcMount_def collectProcMount_def)

text \<open>
  Claim C4 (seccomp postcondition). The pod spec that \<^verbatim>\<open>DefaultPodSpec\<close> returns has a
  pod-level security context with a seccomp profile. When the new pod spec had no
  security context, the result has the empty one with a profile of type
  \<^verbatim>\<open>RuntimeDefault\<close>; when it had one without a profile, that one with a profile of
  type \<^verbatim>\<open>RuntimeDefault\<close>; when it had one with a profile, of any type, the security
  context is returned as it was.
\<close>

theorem DefaultPodSpec_seccomp_profile:
  "(\<exists>sc p. pod_SecurityContext (fst (DefaultPodSpec oldPodSpec newPodSpec)) = Some sc \<and>
            SeccompProfile sc = Some p) \<and>
   (pod_SecurityContext newPodSpec = None \<longrightarrow>
      pod_SecurityContext (fst (DefaultPodSpec oldPodSpec newPodSpec)) =
        Some (emptyPodSecurityContext\<lparr>SeccompProfile :=
                Some \<lparr>seccomp_Type = SeccompProfileTypeRuntimeDefault, LocalhostProfile = None\<rparr>\<rparr>)) \<and>
   (pod_SecurityContext newPodSpec = Some sc0 \<and> SeccompProfile sc0 = None \<longrightarrow>
      pod_SecurityContext (fst (DefaultPodSpec oldPodSpec newPodSpec)) =
        Some (sc0\<lparr>SeccompProfile :=
                Some \<lparr>seccomp_Type = SeccompProfileTypeRuntimeDefault, LocalhostProfile = None\<rparr>\<rparr>)) \<and>
   (pod_SecurityContext newPodSpec = Some sc0 \<and> SeccompProfile sc0 = Some p0 \<longrightarrow>
      pod_SecurityContext (fst (DefaultPodSpec oldPodSpec newPodSpec)) = Some sc0)"
  by (cases "pod_SecurityContext newPodSpec")
     (auto simp add: DefaultPodSpec_SecurityContext split: option.splits)

text \<open>
  The theorem at work on a pod spec without a security context, on one whose security
  context has no profile, and on one with a \<open>Localhost\<close> profile.
\<close>

theorem DefaultPodSpec_seccomp_witness:
  "pod_SecurityContext (fst (DefaultPodSpec carryOld (exPodSpec [] [] (exHeap [])))) =
     Some \<lparr>pod_RunAsUser = None, RunAsNonRoot = None,
           SeccompProfile = Some \<lparr>seccomp_Type = ''RuntimeDefault'', LocalhostProfile = None\<rparr>\<rparr> \<and>
   pod_SecurityContext
     (fst (DefaultPodSpec carryOld
        ((exPodSpec [] [] (exHeap []))\<lparr>pod_SecurityContext := Some (exPodSecurityContext None)\<rparr>))) =
     Some (exPodSecurityContext (Some \<lparr>seccomp_Type = ''RuntimeDefault'', LocalhostProfile = None\<rparr>)) \<and>
   pod_SecurityContext
     (fst (DefaultPodSpec carryOld
        ((exPodSpec [] [] (exHeap []))\<lparr>pod_SecurityContext := Some (exPodSecurityContext (Some exLocalhostProfile))\<rparr>))) =
     Some (exPodSecurityContext (Some exLocalhostProfile))"
  using DefaultPodSpec_seccomp_profile [of carryOld "exPodSpec [] [] (exHeap [])"]
    DefaultPodSpec_seccomp_profile
      [of carryOld "(exPodSpec [] [] (exHeap []))\<lparr>pod_SecurityContext := Some (exPodSecurityContext None)\<rparr>"
          "exPodSecurityContext None"]
    DefaultPodSpec_seccomp_profile
      [of carryOld
          "(exPodSpec [] [] (exHeap []))\<lparr>pod_SecurityContext := Some (exPodSecurityContext (Some exLocalhostProfile))\<rparr>"
          "exPodSecurityContext (Some exLocalhostProfile)" exLocalhostProfile]
  by (simp add: exPodSpec_def exPodSecurityContext_def emptyPodSecurityContext_def
        SeccompProfileTypeRuntimeDefault_def)

text \<open>
  Claim C5 (error short-circuit). For each of \<^verbatim>\<open>DefaultDeployment\<close>,
  \<^verbatim>\<open>DefaultStatefulSet\<close>, \<^verbatim>\<open>DefaultDaemonSet\<close> and \<^verbatim>\<open>DefaultCronJob\<close>: when the inner
  reconciler returns an error \<open>e\<close>, the wrapper returns the nil pointer and the same
  \<open>e\<close>, and the object behind the pointer it was given is in the state in which the
  inner reconciler left it: the wrapper has applied no defaulting and written nothing.
\<close>

theorem wrappers_error_short_circuit:
  "(reconcilerD d = (d_in, Returns pd (Some eD))
      \<longrightarrow> DefaultDeployment reconcilerD d = (d_in, Returns NilPtr (Some eD))) \<and>
   (reconcilerS ss = (ss_in, Returns ps (Some eS))
      \<longrightarrow> DefaultStatefulSet reconcilerS ss = (ss_in, Returns NilPtr (Some eS))) \<and>
   (reconcilerN ds = (ds_in, Returns pn (Some eN))
      \<longrightarrow> DefaultDaemonSet reconcilerN ds = (ds_in, Returns NilPtr (Some eN))) \<and>
   (reconcilerC cj = (cj_in, Returns pc (Some eC))
      \<longrightarrow> DefaultCronJob reconcilerC cj = (cj_in, Returns NilPtr (Some eC)))"
  by (simp add: DefaultDeployment_def DefaultStatefulSet_def DefaultDaemonSet_def DefaultCronJob_def)

text \<open>
  The theorem at work on four failing inner reconcilers: the objects are returned to
  the caller as the inner reconciler left them (renamed, or untouched), with the nil
  pointer and the inner error.
\<close>

theorem wrappers_error_short_circuit_witness:
  "DefaultDeployment failingDeployment
     (Some (exDeployment \<lparr>strategy_Type = '''', RollingUpdate = None\<rparr> carryNew))
     = (Some ((exDeployment \<lparr>strategy_Type = '''', RollingUpdate = None\<rparr> carryNew)\<lparr>dep_Name := ''renamed''\<rparr>),
        Returns NilPtr (Some ''quota exceeded'')) \<and>
   DefaultStatefulSet failingStatefulSet (Some (exStatefulSet carryNew))
     = (Some ((exStatefulSet carryNew)\<lparr>sts_Name := ''renamed''\<rparr>), Returns NilPtr (Some ''quota exceeded'')) \<and>
   DefaultDaemonSet failingDaemonSet (Some (exDaemonSet carryNew))
     = (Some (exDaemonSet carryNew), Returns NilPtr (Some ''quota exceeded'')) \<and>
   DefaultCronJob failingCronJob None = (None, Returns NilPtr (Some ''quota exceeded''))"
  using wrappers_error_short_circuit
    [where reconcilerD = failingDeployment
       and d = "Some (exDeployment \<lparr>strategy_Type = '''', RollingUpdate = None\<rparr> carryNew)"
       and pd = InputPtr and eD = "''quota exceeded''"
       and d_in = "Some ((exDeployment \<lparr>strategy_Type = '''', RollingUpdate = None\<rparr> carryNew)\<lparr>dep_Name := ''renamed''\<rparr>)"
       and reconcilerS = failingStatefulSet and ss = "Some (exStatefulSet carryNew)"
       and ss_in = "Some ((exStatefulSet carryNew)\<lparr>sts_Name := ''renamed''\<rparr>)"
       and ps = NilPtr and eS = "''quota exceeded''"
       and reconcilerN = failingDaemonSet and ds = "Some (exDaemonSet carryNew)"
       and ds_in = "Some (exDaemonSet carryNew)" and pn = InputPtr and eN = "''quota exceeded''"
       and reconcilerC = failingCronJob and cj = None and cj_in = None
       and pc = "OtherPtr (exCronJob carryNew)" and eC = "''quota exceeded''"]
  by (simp add: failingDeployment_def failingStatefulSet_def failingDaemonSet_def failingCronJob_def)

text \<open>
  Claim C6 (Deployment strategy defaulting). Let the inner reconciler succeed on a
  Deployment and return a Deployment \<open>inner\<close>. Then \<^verbatim>\<open>DefaultDeployment\<close> returns
  without an error, and the strategy of the Deployment it returns is: type
  \<^verbatim>\<open>RollingUpdate\<close> with \<^verbatim>\<open>MaxUnavailable\<close> the integer 0 and \<^verbatim>\<open>MaxSurge\<close> the integer
  1, when \<open>inner\<close> had no strategy type and no rolling-update bounds; type
  \<^verbatim>\<open>RollingUpdate\<close> with the bounds of \<open>inner\<close>, when \<open>inner\<close> had no strategy type
  but had bounds; the strategy of \<open>inner\<close>, untouched, when \<open>inner\<close> had a strategy
  type, also when it had no bounds.
\<close>

theorem DefaultDeployment_strategy_default:
  "d = Some old \<and> reconciler d = (d_in, Returns p None) \<and> deref p d_in = Some inner \<longrightarrow>
     (\<exists>p'. snd (DefaultDeployment reconciler d) = Returns p' None) \<and>
     (strategy_Type (Strategy (dep_Spec inner)) = '''' \<and> RollingUpdate (Strategy (dep_Spec inner)) = None \<longrightarrow>
        map_option (\<lambda>x. Strategy (dep_Spec x)) (returned (DefaultDeployment reconciler d)) =
          Some \<lparr>strategy_Type = RollingUpdateDeploymentStrategyType,
                RollingUpdate = Some
                  \<lparr>MaxUnavailable = Some \<lparr>intstr_Type = intstr_Int, IntVal = 0, StrVal = ''''\<rparr>,
                   MaxSurge = Some \<lparr>intstr_Type = intstr_Int, IntVal = 1, StrVal = ''''\<rparr>\<rparr>\<rparr>) \<and>
     (strategy_Type (Strategy (dep_Spec inner)) = '''' \<and> RollingUpdate (Strategy (dep_Spec inner)) = Some ru \<longrightarrow>
        map_option (\<lambda>x. Strategy (dep_Spec x)) (returned (DefaultDeployment reconciler d)) =
          Some \<lparr>strategy_Type = RollingUpdateDeploymentStrategyType, RollingUpdate = Some ru\<rparr>) \<and>
     (strategy_Type (Strategy (dep_Spec inner)) \<noteq> '''' \<longrightarrow>
        map_option (\<lambda>x. Strategy (dep_Spec x)) (returned (DefaultDeployment reconciler d)) =
          Some (Strategy (dep_Spec inner)))"
proof (intro impI)
  assume h: "d = Some old \<and> reconciler d = (d_in, Returns p None) \<and> deref p d_in = Some inner"
  from h have r: "reconciler (Some old) = (d_in, Returns p None)"
    and inner: "deref p d_in = Some inner" and d: "d = Some old"
    by auto
  have ret: "\<exists>p'. snd (DefaultDeployment reconciler d) = Returns p' None"
    unfolding d by (simp add: DefaultDeployment_def Let_def r inner split: prod.splits option.splits)
  have a: "map_option (\<lambda>x. Strategy (dep_Spec x)) (returned (DefaultDeployment reconciler d)) =
          Some \<lparr>strategy_Type = RollingUpdateDeploymentStrategyType,
                RollingUpdate = Some
                  \<lparr>MaxUnavailable = Some \<lparr>intstr_Type = intstr_Int, IntVal = 0, StrVal = ''''\<rparr>,
                   MaxSurge = Some \<lparr>intstr_Type = intstr_Int, IntVal = 1, StrVal = ''''\<rparr>\<rparr>\<rparr>"
    if "strategy_Type (Strategy (dep_Spec inner)) = '''' \<and> RollingUpdate (Strategy (dep_Spec inner)) = None"
    using that unfolding d
    by (simp add: DefaultDeployment_def Let_def r inner returned_def deref_storePtr_storeInput
          split: prod.splits option.splits)
  have b: "map_option (\<lambda>x. Strategy (dep_Spec x)) (returned (DefaultDeployment reconciler d)) =
          Some \<lparr>strategy_Type = RollingUpdateDeploymentStrategyType, RollingUpdate = Some ru\<rparr>"
    if "strategy_Type (Strategy (dep_Spec inner)) = '''' \<and> RollingUpdate (Strategy (dep_Spec inner)) = Some ru"
    using that unfolding d
    by (simp add: DefaultDeployment_def Let_def r inner returned_def deref_storePtr_storeInput
          split: prod.splits option.splits)
  have c: "map_option (\<lambda>x. Strategy (dep_Spec x)) (returned (DefaultDeployment reconciler d)) =
          Some (Strategy (dep_Spec inner))"
    if "strategy_Type (Strategy (dep_Spec inner)) \<noteq> ''''"
    using that unfolding d
    by (simp add: DefaultDeployment_def Let_def r inner returned_def deref_storePtr_storeInput
          split: prod.splits option.splits)
  from ret a b c show "(\<exists>p'. snd (DefaultDeployment reconciler d) = Returns p' None) \<and>
     (strategy_Type (Strategy (dep_Spec inner)) = '''' \<and> RollingUpdate (Strategy (dep_Spec inner)) = None \<longrightarrow>
        map_option (\<lambda>x. Strategy (dep_Spec x)) (returned (DefaultDeployment reconciler d)) =
          Some \<lparr>strategy_Type = RollingUpdateDeploymentStrategyType,
                RollingUpdate = Some
                  \<lparr>MaxUnavailable = Some \<lparr>intstr_Type = intstr_Int, IntVal = 0, StrVal = ''''\<rparr>,
                   MaxSurge = Some \<lparr>intstr_Type = intstr_Int, IntVal = 1, StrVal = ''''\<rparr>\<rparr>\<rparr>) \<and>
     (strategy_Type (Strategy (dep_Spec inner)) = '''' \<and> RollingUpdate (Strategy (dep_Spec inner)) = Some ru \<longrightarrow>
        map_option (\<lambda>x. Strategy (dep_Spec x)) (returned (DefaultDeployment reconciler d)) =
          Some \<lparr>strategy_Type = RollingUpdateDeploymentStrategyType, RollingUpdate = Some ru\<rparr>) \<and>
     (strategy_Type (Strategy (dep_Spec inner)) \<noteq> '''' \<longrightarrow>
        map_option (\<lambda>x. Strategy (dep_Spec x)) (returned (DefaultDeployment reconciler d)) =
          Some (Strategy (dep_Spec inner)))"
    by blast
qed

text \<open>
  The theorem at work on an inner reconciler that rebuilds the spec: with no strategy
  type and no bounds, with no strategy type and bounds given as a percentage, and with
  the type \<open>Recreate\<close> and no bounds.
\<close>

theorem DefaultDeployment_strategy_witness:
  "map_option (\<lambda>x. Strategy (dep_Spec x))
     (returned (DefaultDeployment
        (rebuildDeployment \<lparr>strategy_Type = '''', RollingUpdate = None\<rparr> carryNew)
        (Some (exDeployment \<lparr>strategy_Type = ''Recreate'', RollingUpdate = None\<rparr> carryOld))))
     = Some \<lparr>strategy_Type = ''RollingUpdate'',
             RollingUpdate = Some
               \<lparr>MaxUnavailable = Some \<lparr>intstr_Type = intstr_Int, IntVal = 0, StrVal = ''''\<rparr>,
                MaxSurge = Some \<lparr>intstr_Type = intstr_Int, IntVal = 1, StrVal = ''''\<rparr>\<rparr>\<rparr> \<and>
   map_option (\<lambda>x. Strategy (dep_Spec x))
     (returned (DefaultDeployment
        (rebuildDeployment \<lparr>strategy_Type = '''', RollingUpdate = Some exBounds\<rparr> carryNew)
        (Some (exDeployment \<lparr>strategy_Type = ''Recreate'', RollingUpdate = None\<rparr> carryOld))))
     = Some \<lparr>strategy_Type = ''RollingUpdate'', RollingUpdate = Some exBounds\<rparr> \<and>
   map_option (\<lambda>x. Strategy (dep_Spec x))
     (returned (DefaultDeployment
        (rebuildDeployment \<lparr>strategy_Type = ''Recreate'', RollingUpdate = None\<rparr> carryNew)
        (Some (exDeployment \<lparr>strategy_Type = '''', RollingUpdate = None\<rparr> carryOld))))
     = Some \<lparr>strategy_Type = ''Recreate'', RollingUpdate = None\<rparr>"
  using DefaultDeployment_strategy_default
      [where d = "Some (exDeployment \<lparr>strategy_Type = ''Recreate'', RollingUpdate = None\<rparr> carryOld)"
         and old = "exDeployment \<lparr>strategy_Type = ''Recreate'', RollingUpdate = None\<rparr> carryOld"
         and reconciler = "rebuildDeployment \<lparr>strategy_Type = '''', RollingUpdate = None\<rparr> carryNew"
         and p = InputPtr
         and d_in = "Some ((exDeployment \<lparr>strategy_Type = ''Recreate'', RollingUpdate = None\<rparr> carryOld)
                      \<lparr>dep_Spec := \<lparr>dep_Replicas = Some 3,
                                    Strategy = \<lparr>strategy_Type = '''', RollingUpdate = None\<rparr>,
                                    dep_Template = exTemplate carryNew\<rparr>\<rparr>)"
         and inner = "(exDeployment \<lparr>strategy_Type = ''Recreate'', RollingUpdate = None\<rparr> carryOld)
                      \<lparr>dep_Spec := \<lparr>dep_Replicas = Some 3,
                                    Strategy = \<lparr>strategy_Type = '''', RollingUpdate = None\<rparr>,
                                    dep_Template = exTemplate carryNew\<rparr>\<rparr>"]
    DefaultDeployment_strategy_default
      [where d = "Some (exDeployment \<lparr>strategy_Type = ''Recreate'', RollingUpdate = None\<rparr> carryOld)"
         and old = "exDeployment \<lparr>strategy_Type = ''Recreate'', RollingUpdate = None\<rparr> carryOld"
         and reconciler = "rebuildDeployment \<lparr>strategy_Type = '''', RollingUpdate = Some exBounds\<rparr> carryNew"
         and p = InputPtr and ru = exBounds
         and d_in = "Some ((exDeployment \<lparr>strategy_Type = ''Recreate'', RollingUpdate = None\<rparr> carryOld)
                      \<lparr>dep_Spec := \<lparr>dep_Replicas = Some 3,
                                    Strategy = \<lparr>strategy_Type = '''', RollingUpdate = Some exBounds\<rparr>,
                                    dep_Template = exTemplate carryNew\<rparr>\<rparr>)"
         and inner = "(exDeployment \<lparr>strategy_Type = ''Recreate'', RollingUpdate = None\<rparr> carryOld)
                      \<lparr>dep_Spec := \<lparr>dep_Replicas = Some 3,
                                    Strategy = \<lparr>strategy_Type = '''', RollingUpdate = Some exBounds\<rparr>,
                                    dep_Template = exTemplate carryNew\<rparr>\<rparr>"]
    DefaultDeployment_strategy_default
      [where d = "Some (exDeployment \<lparr>strategy_Type = '''', RollingUpdate = None\<rparr> carryOld)"
         and old = "exDeployment \<lparr>strategy_Type = '''', RollingUpdate = None\<rparr> carryOld"
         and reconciler = "rebuildDeployment \<lparr>strategy_Type = ''Recreate'', RollingUpdate = None\<rparr> carryNew"
         and p = InputPtr
         and d_in = "Some ((exDeployment \<lparr>strategy_Type = '''', RollingUpdate = None\<rparr> carryOld)
                      \<lparr>dep_Spec := \<lparr>dep_Replicas = Some 3,
                                    Strategy = \<lparr>strategy_Type = ''Recreate'', RollingUpdate = None\<rparr>,
                                    dep_Template = exTemplate carryNew\<rparr>\<rparr>)"
         and inner = "(exDeployment \<lparr>strategy_Type = '''', RollingUpdate = None\<rparr> carryOld)
                      \<lparr>dep_Spec := \<lparr>dep_Replicas = Some 3,
                                    Strategy = \<lparr>strategy_Type = ''Recreate'', RollingUpdate = None\<rparr>,
                                    dep_Template = exTemplate carryNew\<rparr>\<rparr>"]
  by (simp add: rebuildDeployment_def RollingUpdateDeploymentStrategyType_def)

text \<open>
  Claim C7 (volume defaulting is fill-only). \<^verbatim>\<open>DefaultPodSpec\<close> keeps the number of
  volumes, and for the volume at every index: the name and the other sources are
  unchanged; a secret source with no access mode gets
  \<^verbatim>\<open>SecretVolumeSourceDefaultMode\<close>, and the secret source is unchanged otherwise; a
  config-map source with no access mode gets \<^verbatim>\<open>ConfigMapVolumeSourceDefaultMode\<close>, and
  the config-map source is unchanged otherwise; and a volume none of whose sources
  lacks an access mode (so also a volume with neither source) is unchanged as a whole.
\<close>

theorem DefaultPodSpec_volumes_fill_only:
  "length (Volumes (fst (DefaultPodSpec oldPodSpec newPodSpec))) = length (Volumes newPodSpec) \<and>
   (i < length (Volumes newPodSpec) \<longrightarrow>
      v_Name (Volumes (fst (DefaultPodSpec oldPodSpec newPodSpec)) ! i) = v_Name (Volumes newPodSpec ! i) \<and>
      HostPath (VolumeSource (Volumes (fst (DefaultPodSpec oldPodSpec newPodSpec)) ! i))
        = HostPath (VolumeSource (Volumes newPodSpec ! i)) \<and>
      (Secret (VolumeSource (Volumes newPodSpec ! i)) = Some s \<and> secret_DefaultMode s = None \<longrightarrow>
         Secret (VolumeSource (Volumes (fst (DefaultPodSpec oldPodSpec newPodSpec)) ! i))
           = Some (s\<lparr>secret_DefaultMode := Some SecretVolumeSourceDefaultMode\<rparr>)) \<and>
      (\<not> (\<exists>s'. Secret (VolumeSource (Volumes newPodSpec ! i)) = Some s' \<and> secret_DefaultMode s' = None) \<longrightarrow>
         Secret (VolumeSource (Volumes (fst (DefaultPodSpec oldPodSpec newPodSpec)) ! i))
           = Secret (VolumeSource (Volumes newPodSpec ! i))) \<and>
      (ConfigMap (VolumeSource (Volumes newPodSpec ! i)) = Some cm \<and> cm_DefaultMode cm = None \<longrightarrow>
         ConfigMap (VolumeSource (Volumes (fst (DefaultPodSpec oldPodSpec newPodSpec)) ! i))
           = Some (cm\<lparr>cm_DefaultMode := Some ConfigMapVolumeSourceDefaultMode\<rparr>)) \<and>
      (\<not> (\<exists>cm'. ConfigMap (VolumeSource (Volumes newPodSpec ! i)) = Some cm' \<and> cm_DefaultMode cm' = None) \<longrightarrow>
         ConfigMap (VolumeSource (Volumes (fst (DefaultPodSpec oldPodSpec newPodSpec)) ! i))
           = ConfigMap (VolumeSource (Volumes newPodSpec ! i))) \<and>
      (\<not> (\<exists>s'. Secret (VolumeSource (Volumes newPodSpec ! i)) = Some s' \<and> secret_DefaultMode s' = None) \<and>
       \<not> (\<exists>cm'. ConfigMap (VolumeSource (Volumes newPodSpec ! i)) = Some cm' \<and> cm_DefaultMode cm' = None) \<longrightarrow>
         Volumes (fst (DefaultPodSpec oldPodSpec newPodSpec)) ! i = Volumes newPodSpec ! i))"
proof (intro conjI impI)
  show "length (Volumes (fst (DefaultPodSpec oldPodSpec newPodSpec))) = length (Volumes newPodSpec)"
    by (simp add: DefaultPodSpec_Volumes)
next
  assume "i < length (Volumes newPodSpec)"
  then have nth: "Volumes (fst (DefaultPodSpec oldPodSpec newPodSpec)) ! i = defaultVolume (Volumes newPodSpec ! i)"
    by (simp add: DefaultPodSpec_Volumes)
  show "v_Name (Volumes (fst (DefaultPodSpec oldPodSpec newPodSpec)) ! i) = v_Name (Volumes newPodSpec ! i)"
    by (simp add: nth defaultVolume_frame)
  show "HostPath (VolumeSource (Volumes (fst (DefaultPodSpec oldPodSpec newPodSpec)) ! i))
        = HostPath (VolumeSource (Volumes newPodSpec ! i))"
    by (simp add: nth defaultVolume_frame)
  {
    assume "Secret (VolumeSource (Volumes newPodSpec ! i)) = Some s \<and> secret_DefaultMode s = None"
    then show "Secret (VolumeSource (Volumes (fst (DefaultPodSpec oldPodSpec newPodSpec)) ! i))
           = Some (s\<lparr>secret_DefaultMode := Some SecretVolumeSourceDefaultMode\<rparr>)"
      by (simp add: nth defaultVolume_Secret)
  }
  {
    assume "\<not> (\<exists>s'. Secret (VolumeSource (Volumes newPodSpec ! i)) = Some s' \<and> secret_DefaultMode s' = None)"
    then show "Secret (VolumeSource (Volumes (fst (DefaultPodSpec oldPodSpec newPodSpec)) ! i))
           = Secret (VolumeSource (Volumes newPodSpec ! i))"
      by (simp add: nth defaultVolume_Secret split: option.splits)
  }
  {
    assume "ConfigMap (VolumeSource (Volumes newPodSpec ! i)) = Some cm \<and> cm_DefaultMode cm = None"
    then show "ConfigMap (VolumeSource (Volumes (fst (DefaultPodSpec oldPodSpec newPodSpec)) ! i))
           = Some (cm\<lparr>cm_DefaultMode := Some ConfigMapVolumeSourceDefaultMode\<rparr>)"
      by (simp add: nth defaultVolume_ConfigMap)
  }
  {
    assume "\<not> (\<exists>cm'. ConfigMap (VolumeSource (Volumes newPodSpec ! i)) = Some cm' \<and> cm_DefaultMode cm' = None)"
    then show "ConfigMap (VolumeSource (Volumes (fst (DefaultPodSpec oldPodSpec newPodSpec)) ! i))
           = ConfigMap (VolumeSource (Volumes newPodSpec ! i))"
      by (simp add: nth defaultVolume_ConfigMap split: option.splits)
  }
  {
    assume "\<not> (\<exists>s'. Secret (VolumeSource (Volumes newPodSpec ! i)) = Some s' \<and> secret_DefaultMode s' = None) \<and>
       \<not> (\<exists>cm'. ConfigMap (VolumeSource (Volumes newPodSpec ! i)) = Some cm' \<and> cm_DefaultMode cm' = None)"
    then show "Volumes (fst (DefaultPodSpec oldPodSpec newPodSpec)) ! i = Volumes newPodSpec ! i"
      by (simp add: nth defaultVolume_unchanged)
  }
qed

text \<open>
  The theorem at work: a secret volume with no mode gets 420 (octal 0644), one with
  mode 256 (octal 0400) is unchanged, a config-map volume with no mode gets 420, and a
  host-path volume is unchanged.
\<close>

theorem DefaultPodSpec_volumes_witness:
  "Secret (VolumeSource (Volumes volumesNew ! 0)) = Some \<lparr>SecretName = ''tls'', secret_DefaultMode = None\<rparr> \<and>
   Secret (VolumeSource (Volumes (fst (DefaultPodSpec carryOld volumesNew)) ! 0))
     = Some \<lparr>SecretName = ''tls'', secret_DefaultMode = Some 420\<rparr> \<and>
   Secret (VolumeSource (Volumes volumesNew ! 1)) = Some \<lparr>SecretName = ''tls'', secret_DefaultMode = Some 256\<rparr> \<and>
   Volumes (fst (DefaultPodSpec carryOld volumesNew)) ! 1 = Volumes volumesNew ! 1 \<and>
   ConfigMap (VolumeSource (Volumes volumesNew ! 2)) = Some \<lparr>cm_Name = ''settings'', cm_DefaultMode = None\<rparr> \<and>
   ConfigMap (VolumeSource (Volumes (fst (DefaultPodSpec carryOld volumesNew)) ! 2))
     = Some \<lparr>cm_Name = ''settings'', cm_DefaultMode = Some 420\<rparr> \<and>
   Secret (VolumeSource (Volumes volumesNew ! 3)) = None \<and>
   ConfigMap (VolumeSource (Volumes volumesNew ! 3)) = None \<and>
   Volumes (fst (DefaultPodSpec carryOld volumesNew)) ! 3 = Volumes volumesNew ! 3"
  using DefaultPodSpec_volumes_fill_only
      [of carryOld volumesNew 0 "\<lparr>SecretName = ''tls'', secret_DefaultMode = None\<rparr>"]
    DefaultPodSpec_volumes_fill_only [of carryOld volumesNew 1]
    DefaultPodSpec_volumes_fill_only
      [of carryOld volumesNew 2 _ "\<lparr>cm_Name = ''settings'', cm_DefaultMode = None\<rparr>"]
    DefaultPodSpec_volumes_fill_only [of carryOld volumesNew 3]
  by (simp add: volumesNew_def exPodSpec_def exVolume_def
        SecretVolumeSourceDefaultMode_def ConfigMapVolumeSourceDefaultMode_def)

text \<open>
  Claim C8 (no security context is fabricated). \<^verbatim>\<open>DefaultPodSpec\<close> keeps the number of
  main and of init containers, and a container of the new pod spec that has no
  security context has none afterwards, whatever the old pod spec holds under its
  name; \<^verbatim>\<open>DefaultContainer\<close> itself leaves a nil security context nil and the store of
  security contexts as it is, whatever isolation mode it is handed.
\<close>

theorem DefaultPodSpec_keeps_nil_SecurityContext:
  "length (Containers (fst (DefaultPodSpec oldPodSpec newPodSpec))) = length (Containers newPodSpec) \<and>
   length (InitContainers (fst (DefaultPodSpec oldPodSpec newPodSpec))) = length (InitContainers newPodSpec) \<and>
   (i < length (Containers newPodSpec) \<and> c_SecurityContext (Containers newPodSpec ! i) = None
    \<longrightarrow> c_SecurityContext (Containers (fst (DefaultPodSpec oldPodSpec newPodSpec)) ! i) = None) \<and>
   (j < length (InitContainers newPodSpec) \<and> c_SecurityContext (InitContainers newPodSpec ! j) = None
    \<longrightarrow> c_SecurityContext (InitContainers (fst (DefaultPodSpec oldPodSpec newPodSpec)) ! j) = None) \<and>
   (c_SecurityContext c = None \<longrightarrow>
      c_SecurityContext (snd (DefaultContainer heap c procMountType)) = None \<and>
      fst (DefaultContainer heap c procMountType) = heap)"
  by (simp add: DefaultPodSpec_Containers DefaultPodSpec_InitContainers DefaultContainer_heap)

text \<open>
  The theorem at work: the old \<open>app\<close> has the mode \<open>Unmasked\<close> to carry forward, the
  new \<open>app\<close> has no security context, and none is made for it.
\<close>

theorem DefaultPodSpec_keeps_nil_witness:
  "c_Name (Containers carryOld ! 0) = ''app'' \<and>
   c_SecurityContext (Containers carryOld ! 0) = Some 2 \<and>
   ProcMount (sc_heap carryOld 2) = Some ''Unmasked'' \<and>
   c_Name (Containers nullNew ! 0) = ''app'' \<and>
   c_SecurityContext (Containers nullNew ! 0) = None \<and>
   c_SecurityContext (Containers (fst (DefaultPodSpec carryOld nullNew)) ! 0) = None \<and>
   c_SecurityContext (InitContainers nullNew ! 0) = None \<and>
   c_SecurityContext (InitContainers (fst (DefaultPodSpec carryOld nullNew)) ! 0) = None \<and>
   c_SecurityContext
     (snd (DefaultContainer (exHeap []) (exContainer ''app'' ''app:2'' None) (Some ''Unmasked''))) = None \<and>
   fst (DefaultContainer (exHeap []) (exContainer ''app'' ''app:2'' None) (Some ''Unmasked'')) = exHeap []"
  using DefaultPodSpec_keeps_nil_SecurityContext
    [where oldPodSpec = carryOld and newPodSpec = nullNew and i = 0 and j = 0
       and c = "exContainer ''app'' ''app:2'' None" and heap = "exHeap []"
       and procMountType = "Some ''Unmasked''"]
  by (simp add: carryOld_def nullNew_def exPodSpec_def exContainer_def exHeap_def
        exSecurityContext_def)

text \<open>
  Claim C9 (normalization is total). For every pair of pod specs, the error that
  \<^verbatim>\<open>DefaultPodSpec\<close> returns is nil. The function has no failing branch (every map
  read, index and dereference of the source is in range or guarded), so this holds for
  degenerate inputs such as containers with an empty name as well.
\<close>

theorem DefaultPodSpec_error_nil:
  "snd (DefaultPodSpec oldPodSpec newPodSpec) = None"
  by (simp add: DefaultPodSpec_def Let_def)

text \<open>
  Claim C10, as amended (the two lookups are kept apart). The main containers that
  \<^verbatim>\<open>DefaultPodSpec\<close> returns, and the security contexts they point to, do not depend on
  the old init containers: a main container never inherits from an old init
  container. The init containers it returns do not depend on the old main containers
  either, and nor does the security context of an init container, provided no main
  container holds the same \<^verbatim>\<open>*SecurityContext\<close>. A new main container whose name occurs
  in no old main container (also when it occurs among the old init containers) leaves
  with its isolation mode unset, when it has a security context that no later main
  container holds; and so does a new init container whose name occurs in no old init
  container, when it has a security context that neither a later init container nor
  any main container holds.
\<close>

theorem procMount_lists_kept_apart:
  "Containers (fst (DefaultPodSpec (oldPodSpec\<lparr>InitContainers := inits\<rparr>) newPodSpec))
     = Containers (fst (DefaultPodSpec oldPodSpec newPodSpec)) \<and>
   (i < length (Containers newPodSpec) \<and> c_SecurityContext (Containers newPodSpec ! i) = Some a
    \<longrightarrow> sc_heap (fst (DefaultPodSpec (oldPodSpec\<lparr>InitContainers := inits\<rparr>) newPodSpec)) a
          = sc_heap (fst (DefaultPodSpec oldPodSpec newPodSpec)) a) \<and>
   InitContainers (fst (DefaultPodSpec (oldPodSpec\<lparr>Containers := mains\<rparr>) newPodSpec))
     = InitContainers (fst (DefaultPodSpec oldPodSpec newPodSpec)) \<and>
   (j < length (InitContainers newPodSpec) \<and>
    c_SecurityContext (InitContainers newPodSpec ! j) = Some b \<and>
    \<not> (\<exists>c\<in>set (Containers newPodSpec). c_SecurityContext c = Some b)
    \<longrightarrow> sc_heap (fst (DefaultPodSpec (oldPodSpec\<lparr>Containers := mains\<rparr>) newPodSpec)) b
          = sc_heap (fst (DefaultPodSpec oldPodSpec newPodSpec)) b) \<and>
   (\<not> (\<exists>c\<in>set (Containers oldPodSpec). c_Name c = n) \<and>
    k < length (Containers newPodSpec) \<and>
    c_Name (Containers newPodSpec ! k) = n \<and>
    c_SecurityContext (Containers newPodSpec ! k) = Some d \<and>
    \<not> (\<exists>c\<in>set (drop (Suc k) (Containers newPodSpec)). c_SecurityContext c = Some d)
    \<longrightarrow> sc_heap (fst (DefaultPodSpec oldPodSpec newPodSpec)) d
          = (sc_heap newPodSpec d)\<lparr>ProcMount := None\<rparr>) \<and>
   (\<not> (\<exists>c\<in>set (InitContainers oldPodSpec). c_Name c = m) \<and>
    l < length (InitContainers newPodSpec) \<and>
    c_Name (InitContainers newPodSpec ! l) = m \<and>
    c_SecurityContext (InitContainers newPodSpec ! l) = Some e \<and>
    \<not> (\<exists>c\<in>set (drop (Suc l) (InitContainers newPodSpec)). c_SecurityContext c = Some e) \<and>
    \<not> (\<exists>c\<in>set (Containers newPodSpec). c_SecurityContext c = Some e)
    \<longrightarrow> sc_heap (fst (DefaultPodSpec oldPodSpec newPodSpec)) e
          = (sc_heap newPodSpec e)\<lparr>ProcMount := None\<rparr>)"
proof (intro conjI impI)
  show "Containers (fst (DefaultPodSpec (oldPodSpec\<lparr>InitContainers := inits\<rparr>) newPodSpec))
     = Containers (fst (DefaultPodSpec oldPodSpec newPodSpec))"
    by (simp add: DefaultPodSpec_Containers)
  show "InitContainers (fst (DefaultPodSpec (oldPodSpec\<lparr>Containers := mains\<rparr>) newPodSpec))
     = InitContainers (fst (DefaultPodSpec oldPodSpec newPodSpec))"
    by (simp add: DefaultPodSpec_InitContainers)
next
  assume h: "i < length (Containers newPodSpec) \<and> c_SecurityContext (Containers newPodSpec ! i) = Some a"
  then obtain nm where nm: "\<And>old. sc_heap (fst (DefaultPodSpec old newPodSpec)) a =
           (sc_heap newPodSpec a)\<lparr>ProcMount :=
              lookupProcMount (collectProcMount (sc_heap old) (Containers old)) nm\<rparr>"
    using DefaultPodSpec_main_object_any [of i newPodSpec a] by blast
  show "sc_heap (fst (DefaultPodSpec (oldPodSpec\<lparr>InitContainers := inits\<rparr>) newPodSpec)) a
          = sc_heap (fst (DefaultPodSpec oldPodSpec newPodSpec)) a"
    by (simp add: nm)
next
  assume h: "j < length (InitContainers newPodSpec) \<and>
    c_SecurityContext (InitContainers newPodSpec ! j) = Some b \<and>
    \<not> (\<exists>c\<in>set (Containers newPodSpec). c_SecurityContext c = Some b)"
  then have no: "\<not> (\<exists>c\<in>set (Containers newPodSpec). c_SecurityContext c = Some b)"
    by simp
  have frame: "sc_heap (oldPodSpec\<lparr>Containers := mains\<rparr>) = sc_heap oldPodSpec"
    "InitContainers (oldPodSpec\<lparr>Containers := mains\<rparr>) = InitContainers oldPodSpec"
    by simp_all
  show "sc_heap (fst (DefaultPodSpec (oldPodSpec\<lparr>Containers := mains\<rparr>) newPodSpec)) b
          = sc_heap (fst (DefaultPodSpec oldPodSpec newPodSpec)) b"
    unfolding DefaultPodSpec_heap frame writes_untouched [OF no] ..
next
  assume h: "\<not> (\<exists>c\<in>set (Containers oldPodSpec). c_Name c = n) \<and>
    k < length (Containers newPodSpec) \<and>
    c_Name (Containers newPodSpec ! k) = n \<and>
    c_SecurityContext (Containers newPodSpec ! k) = Some d \<and>
    \<not> (\<exists>c\<in>set (drop (Suc k) (Containers newPodSpec)). c_SecurityContext c = Some d)"
  then have look: "lookupProcMount (collectProcMount (sc_heap oldPodSpec) (Containers oldPodSpec)) n = None"
    by (intro lookup_collect_miss) blast
  from h have "sc_heap (fst (DefaultPodSpec oldPodSpec newPodSpec)) d =
           (sc_heap newPodSpec d)\<lparr>ProcMount :=
              lookupProcMount (collectProcMount (sc_heap oldPodSpec) (Containers oldPodSpec))
                (c_Name (Containers newPodSpec ! k))\<rparr>"
    by (intro DefaultPodSpec_main_object) simp_all
  with h look show "sc_heap (fst (DefaultPodSpec oldPodSpec newPodSpec)) d
          = (sc_heap newPodSpec d)\<lparr>ProcMount := None\<rparr>"
    by simp
next
  assume h: "\<not> (\<exists>c\<in>set (InitContainers oldPodSpec). c_Name c = m) \<and>
    l < length (InitContainers newPodSpec) \<and>
    c_Name (InitContainers newPodSpec ! l) = m \<and>
    c_SecurityContext (InitContainers newPodSpec ! l) = Some e \<and>
    \<not> (\<exists>c\<in>set (drop (Suc l) (InitContainers newPodSpec)). c_SecurityContext c = Some e) \<and>
    \<not> (\<exists>c\<in>set (Containers newPodSpec). c_SecurityContext c = Some e)"
  then have look: "lookupProcMount (collectProcMount (sc_heap oldPodSpec) (InitContainers oldPodSpec)) m = None"
    by (intro lookup_collect_miss) blast
  from h have "sc_heap (fst (DefaultPodSpec oldPodSpec newPodSpec)) e =
           (sc_heap newPodSpec e)\<lparr>ProcMount :=
              lookupProcMount (collectProcMount (sc_heap oldPodSpec) (InitContainers oldPodSpec))
                (c_Name (InitContainers newPodSpec ! l))\<rparr>"
    by (intro DefaultPodSpec_init_object) simp_all
  with h look show "sc_heap (fst (DefaultPodSpec oldPodSpec newPodSpec)) e
          = (sc_heap newPodSpec e)\<lparr>ProcMount := None\<rparr>"
    by simp
qed

text \<open>
  The theorem at work: \<open>worker\<close> was an init container with mode \<open>Unmasked\<close> and is
  now a main container, \<open>helper\<close> the other way round; both arrive with \<open>Default\<close>
  and leave with no isolation mode, and the result at their security contexts is the
  same when the other old list is emptied.
\<close>

theorem procMount_lists_kept_apart_witness:
  "c_Name (InitContainers crossOld ! 0) = ''worker'' \<and>
   ProcMount (sc_heap crossOld 1) = Some ''Unmasked'' \<and>
   \<not> (\<exists>c\<in>set (Containers crossOld). c_Name c = ''worker'') \<and>
   c_Name (Containers crossNew ! 0) = ''worker'' \<and>
   c_SecurityContext (Containers crossNew ! 0) = Some 2 \<and>
   sc_heap crossNew 2 = exSecurityContext (Some ''Default'') \<and>
   sc_heap (fst (DefaultPodSpec crossOld crossNew)) 2 = exSecurityContext None \<and>
   sc_heap (fst (DefaultPodSpec (crossOld\<lparr>InitContainers := []\<rparr>) crossNew)) 2
     = sc_heap (fst (DefaultPodSpec crossOld crossNew)) 2 \<and>
   c_Name (Containers crossOld ! 0) = ''helper'' \<and>
   ProcMount (sc_heap crossOld 2) = Some ''Unmasked'' \<and>
   \<not> (\<exists>c\<in>set (InitContainers crossOld). c_Name c = ''helper'') \<and>
   c_Name (InitContainers crossNew ! 0) = ''helper'' \<and>
   c_SecurityContext (InitContainers crossNew ! 0) = Some 1 \<and>
   sc_heap crossNew 1 = exSecurityContext (Some ''Default'') \<and>
   sc_heap (fst (DefaultPodSpec crossOld crossNew)) 1 = exSecurityContext None \<and>
   sc_heap (fst (DefaultPodSpec (crossOld\<lparr>Containers := []\<rparr>) crossNew)) 1
     = sc_heap (fst (DefaultPodSpec crossOld crossNew)) 1"
  using procMount_lists_kept_apart
    [where oldPodSpec = crossOld and newPodSpec = crossNew
       and inits = "[]" and i = 0 and a = 2 and mains = "[]" and j = 0 and b = 1
       and n = "''worker''" and k = 0 and d = 2
       and m = "''helper''" and l = 0 and e = 1]
  by (simp add: crossOld_def crossNew_def exPodSpec_def exContainer_def exHeap_def
        exSecurityContext_def)

text \<open>
  Claim C10 as it was stated fails when an init container and a main container share
  one security context. The old pod spec has a main container \<open>h\<close> with mode
  \<open>Unmasked\<close> and no init container; the new init container \<open>h\<close> and the new main
  container \<open>h\<close> hold the same \<^verbatim>\<open>*SecurityContext\<close>. The main containers are processed
  last, so the security context of the init container ends with \<open>Unmasked\<close>, the mode
  of the old main container, not unset.
\<close>

theorem procMount_lists_shared_counterexample:
  "InitContainers sharedAcrossOld = [] \<and>
   c_Name (Containers sharedAcrossOld ! 0) = ''h'' \<and>
   c_SecurityContext (Containers sharedAcrossOld ! 0) = Some 1 \<and>
   ProcMount (sc_heap sharedAcrossOld 1) = Some ''Unmasked'' \<and>
   c_Name (InitContainers sharedAcrossNew ! 0) = ''h'' \<and>
   c_SecurityContext (InitContainers sharedAcrossNew ! 0) = Some 1 \<and>
   c_Name (InitContainers (fst (DefaultPodSpec sharedAcrossOld sharedAcrossNew)) ! 0) = ''h'' \<and>
   c_SecurityContext (InitContainers (fst (DefaultPodSpec sharedAcrossOld sharedAcrossNew)) ! 0) = Some 1 \<and>
   ProcMount (sc_heap (fst (DefaultPodSpec sharedAcrossOld sharedAcrossNew)) 1) = Some ''Unmasked'' \<and>
   ProcMount (sc_heap (fst (DefaultPodSpec sharedAcrossOld sharedAcrossNew)) 1) \<noteq> None"
  by (simp add: sharedAcrossOld_def sharedAcrossNew_def exPodSpec_def exContainer_def exHeap_def
        exSecurityContext_def DefaultPodSpec_InitContainers DefaultPodSpec_heap
        lookupProcMount_def collectProcMount_def)

end
